theory Spec2Isabelle
  imports Main
begin

section \<open>JavaScript values shared by the tools and workflows\<close>

text \<open>
  A thrown JavaScript error: its \<open>name\<close> (\<open>Error\<close>, \<open>TypeError\<close>, \<open>SyntaxError\<close>,
  \<open>RangeError\<close>) and its \<open>message\<close>. \<open>String(error)\<close> and the template
  \<open>`${error}`\<close> render it as \<open>name: message\<close>.
\<close>

datatype exn = Exn (ename: string) (emessage: string)

definition Error :: "string \<Rightarrow> exn" where
  "Error m = Exn ''Error'' m"

definition String_of_exn :: "exn \<Rightarrow> string" where
  "String_of_exn e = ename e @ '': '' @ emessage e"


section \<open>Strings\<close>

text \<open>
  JavaScript strings are modelled as \<open>string\<close>; \<open>length\<close> is the \<open>.length\<close> of
  the source. White space is what \<open>trim()\<close> and the regular expression class \<open>\s\<close>
  accept among these characters: tab, line feed, vertical tab, form feed, carriage
  return, space and no-break space.
\<close>

definition isSpace :: "char \<Rightarrow> bool" where
  "isSpace c = (of_char c \<in> {9, 10, 11, 12, 13, 32, 160 :: nat})"

definition trim :: "string \<Rightarrow> string" where
  "trim s = rev (dropWhile isSpace (rev (dropWhile isSpace s)))"

definition startsWith :: "string \<Rightarrow> string \<Rightarrow> bool" where
  "startsWith s p = (take (length p) s = p)"

definition endsWith :: "string \<Rightarrow> string \<Rightarrow> bool" where
  "endsWith s p = (length p \<le> length s \<and> drop (length s - length p) s = p)"

definition isDigit :: "char \<Rightarrow> bool" where
  "isDigit c = (48 \<le> (of_char c :: nat) \<and> (of_char c :: nat) \<le> 57)"

text \<open>\<open>xs.join(sep)\<close> on an array of strings.\<close>

fun join :: "string \<Rightarrow> string list \<Rightarrow> string" where
  "join sep [] = []"
| "join sep [x] = x"
| "join sep (x # y # ys) = x @ sep @ join sep (y # ys)"

section \<open>JSON values\<close>

text \<open>
  What \<open>JSON.parse\<close> and \<open>response.json()\<close> produce. Numbers are modelled as
  integers. A JavaScript value read out of such a structure is a \<open>json option\<close>, with
  \<open>None\<close> for \<open>undefined\<close>.
\<close>

datatype json = JNull | JBool bool | JNum int | JStr string | JArr "json list"
  | JObj "(string \<times> json) list"

type_synonym jsval = "json option"

text \<open>Truthiness, as in \<open>if (v)\<close>, \<open>!v\<close> and \<open>a || b\<close>.\<close>

fun truthy :: "jsval \<Rightarrow> bool" where
  "truthy None = False"
| "truthy (Some JNull) = False"
| "truthy (Some (JBool b)) = b"
| "truthy (Some (JNum n)) = (n \<noteq> 0)"
| "truthy (Some (JStr s)) = (s \<noteq> [])"
| "truthy (Some (JArr xs)) = True"
| "truthy (Some (JObj kvs)) = True"

fun isArray :: "jsval \<Rightarrow> bool" where
  "isArray (Some (JArr xs)) = True"
| "isArray v = False"

text \<open>
  Reading a property \<open>v.k\<close>, for the property names the source reads that are no
  method of a built-in prototype. It throws a TypeError on \<open>undefined\<close> and \<open>null\<close>;
  an object yields its own property (the last one, if the text repeated the key);
  the \<open>length\<close> of an array or string is its length; anything else is \<open>undefined\<close>.
\<close>

definition TypeError_read :: "string \<Rightarrow> exn" where
  "TypeError_read k = Exn ''TypeError'' (''Cannot read properties of undefined or null (reading '' @ k @ '')'')"

fun getprop :: "jsval \<Rightarrow> string \<Rightarrow> exn + jsval" where
  "getprop None k = Inl (TypeError_read k)"
| "getprop (Some JNull) k = Inl (TypeError_read k)"
| "getprop (Some (JObj kvs)) k = Inr (map_of (rev kvs) k)"
| "getprop (Some (JArr xs)) k = Inr (if k = ''length'' then Some (JNum (int (length xs))) else None)"
| "getprop (Some (JStr s)) k = Inr (if k = ''length'' then Some (JNum (int (length s))) else None)"
| "getprop (Some v) k = Inr None"

section \<open>Workflows: parsing the generator's answer\<close>

text \<open>
  enhanceTasks (both workflows), the cleaning of the streamed text:
  \<^verbatim>\<open>let cleanedResponse = enhancedTasksText.trim();
  if (cleanedResponse.startsWith('```json')) {
    cleanedResponse = cleanedResponse.replace(/^```json\s*/, '').replace(/\s*```$/, '');
  } else if (cleanedResponse.startsWith('```')) {
    cleanedResponse = cleanedResponse.replace(/^```\s*/, '').replace(/\s*```$/, '');
  }
  cleanedResponse = cleanedResponse.trim();\<close>
  \<open>replace_fence_start p\<close> is \<open>replace(/^p\s*/, '')\<close> on a string that starts with
  \<open>p\<close>; \<open>replace_fence_end\<close> is \<open>replace(/\s*```$/, '')\<close>: the pattern matches only
  when the string ends with three backquotes, and then from the start of the white
  space before them.
\<close>

definition fence :: string where
  "fence = [CHR 0x60, CHR 0x60, CHR 0x60]"

definition replace_fence_start :: "string \<Rightarrow> string \<Rightarrow> string" where
  "replace_fence_start p s = dropWhile isSpace (drop (length p) s)"

definition replace_fence_end :: "string \<Rightarrow> string" where
  "replace_fence_end s =
     (if endsWith s fence then rev (dropWhile isSpace (drop 3 (rev s))) else s)"

definition cleanedResponse :: "string \<Rightarrow> string" where
  "cleanedResponse enhancedTasksText =
     (let c = trim enhancedTasksText;
          c' = (if startsWith c (fence @ ''json'')
                  then replace_fence_end (replace_fence_start (fence @ ''json'') c)
                else if startsWith c fence
                  then replace_fence_end (replace_fence_start fence c)
                else c)
      in trim c')"

text \<open>
  The structure check on the decoded value:
  \<^verbatim>\<open>if (!enhancedTasks.boardName || !enhancedTasks.lists || !Array.isArray(enhancedTasks.lists))
    throw new Error("Invalid enhanced tasks structure");\<close>
  with \<open>epicTitle\<close> and \<open>stories\<close> in the Jira workflow. Reading a property of
  \<open>null\<close> throws a TypeError.
\<close>

definition validateStructure :: "string \<Rightarrow> string \<Rightarrow> json \<Rightarrow> exn + json" where
  "validateStructure titleField listField v =
     (case getprop (Some v) titleField of
        Inl e \<Rightarrow> Inl e
      | Inr t \<Rightarrow>
          (case getprop (Some v) listField of
             Inl e \<Rightarrow> Inl e
           | Inr l \<Rightarrow>
               if \<not> truthy t \<or> \<not> truthy l \<or> \<not> isArray l
               then Inl (Error ''Invalid enhanced tasks structure'')
               else Inr v))"

text \<open>
  The \<open>try { ... } catch (error) { throw new Error(...) }\<close> around cleaning, decoding
  and checking. \<open>JSON_parse\<close> is the platform's \<open>JSON.parse\<close>: it returns the decoded
  value or throws a SyntaxError.
\<close>

definition parseEnhancedTasks ::
  "(string \<Rightarrow> exn + json) \<Rightarrow> string \<Rightarrow> string \<Rightarrow> string \<Rightarrow> exn + json" where
  "parseEnhancedTasks JSON_parse titleField listField enhancedTasksText =
     (case (case JSON_parse (cleanedResponse enhancedTasksText) of
              Inl e \<Rightarrow> Inl e
            | Inr v \<Rightarrow> validateStructure titleField listField v) of
        Inl error \<Rightarrow>
          Inl (Error (''Failed to parse AI response as JSON: '' @ String_of_exn error
                      @ ''. Response was: '' @ take 200 enhancedTasksText @ ''...''))
      | Inr enhancedTasks \<Rightarrow> Inr enhancedTasks)"


definition enhanceTasks_jira :: "(string \<Rightarrow> exn + json) \<Rightarrow> string \<Rightarrow> exn + json" where
  "enhanceTasks_jira JSON_parse = parseEnhancedTasks JSON_parse ''epicTitle'' ''stories''"

section \<open>Tool input schemas\<close>

text \<open>
  jiraTool.inputSchema, one element of \<open>projectData.tasks\<close>:
  \<^verbatim>\<open>title: z.string().min(1, "Task title cannot be empty").max(255, "Task title too long"),
  description: z.string().max(32767, "Description too long"),
  type: z.enum(["Story", "Task", "Bug", "Epic"]).default("Task"),
  assignee: z.string().email("Invalid email format").optional(),
  epic: z.string().optional(), sprint: z.string().optional(),
  dueDate: z.string().regex(/^\d{4}-\d{2}-\d{2}$/, "Date must be in YYYY-MM-DD format").optional(),
  blocks: z.string().optional()\<close>
\<close>

datatype issue_type = Story | Task | Bug | Epic

record jtask =
  jt_title :: string
  jt_description :: string
  jt_type :: issue_type
  jt_assignee :: "string option"
  jt_epic :: "string option"
  jt_sprint :: "string option"
  jt_dueDate :: "string option"
  jt_blocks :: "string option"

text \<open>The regular expression \<open>/^\d{4}-\d{2}-\d{2}$/\<close>.\<close>

definition isDateFormat :: "string \<Rightarrow> bool" where
  "isDateFormat s =
     (length s = 10 \<and> s ! 4 = CHR ''-'' \<and> s ! 7 = CHR ''-'' \<and>
      (\<forall>i \<in> {0, 1, 2, 3, 5, 6, 8, 9}. isDigit (s ! i)))"

text \<open>
  The issues the schema raises for one task, in the order of the fields; the task is
  accepted when there is none. \<open>isEmail\<close> is the e-mail test of the schema library.
\<close>

definition jiraTaskSchema :: "(string \<Rightarrow> bool) \<Rightarrow> jtask \<Rightarrow> string list" where
  "jiraTaskSchema isEmail t =
     (if length (jt_title t) < 1 then [''Task title cannot be empty''] else [])
     @ (if length (jt_title t) > 255 then [''Task title too long''] else [])
     @ (if length (jt_description t) > 32767 then [''Description too long''] else [])
     @ (case jt_assignee t of None \<Rightarrow> []
        | Some a \<Rightarrow> if isEmail a then [] else [''Invalid email format''])
     @ (case jt_dueDate t of None \<Rightarrow> []
        | Some d \<Rightarrow> if isDateFormat d then [] else [''Date must be in YYYY-MM-DD format''])"

text \<open>
  trelloTool.inputSchema, one element of \<open>boardData.lists[].cards\<close>:
  \<^verbatim>\<open>title: z.string().min(1).max(16384), // Trello card title limit
  description: z.string().max(16384).default(""), // Trello description limit
  labels: z.array(z.string().max(100)).default([]),
  dueDate: z.string().optional().refine(val => !val || validateDate(val), {message: "Invalid date format"}),
  checklist: z.array(z.string().max(16384)).default([])\<close>
\<close>

record tcard =
  tc_title :: string
  tc_description :: string
  tc_labels :: "string list"
  tc_dueDate :: "string option"
  tc_checklist :: "string list"

text \<open>
  \<^verbatim>\<open>function validateDate(dateString: string): boolean {
    if (!dateString) return false;
    const date = new Date(dateString);
    return !isNaN(date.getTime()) && date > new Date('1970-01-01');
  }\<close>
  \<open>Date_parse\<close> is the platform's date parser: the time value of \<open>new Date(s)\<close>, or
  \<open>None\<close> for an invalid date.
\<close>

definition validateDate :: "(string \<Rightarrow> int option) \<Rightarrow> string \<Rightarrow> bool" where
  "validateDate Date_parse dateString =
     (if dateString = [] then False
      else case Date_parse dateString of None \<Rightarrow> False | Some t \<Rightarrow> t > 0)"

text \<open>The issues the schema raises for one card, named by field and check.\<close>

datatype schema_issue = too_small string | too_big string | custom string

definition trelloCardSchema :: "(string \<Rightarrow> int option) \<Rightarrow> tcard \<Rightarrow> schema_issue list" where
  "trelloCardSchema Date_parse c =
     (if length (tc_title c) < 1 then [too_small ''title''] else [])
     @ (if length (tc_title c) > 16384 then [too_big ''title''] else [])
     @ (if length (tc_description c) > 16384 then [too_big ''description''] else [])
     @ concat (map (\<lambda>l. if length l > 100 then [too_big ''labels''] else []) (tc_labels c))
     @ (case tc_dueDate c of None \<Rightarrow> []
        | Some val \<Rightarrow> if val = [] \<or> validateDate Date_parse val then []
                      else [custom ''Invalid date format''])
     @ concat (map (\<lambda>i. if length i > 16384 then [too_big ''checklist''] else []) (tc_checklist c))"

definition longTitleTask :: jtask where
  "longTitleTask = \<lparr>jt_title = replicate 256 CHR ''a'', jt_description = ''d'', jt_type = Task,
     jt_assignee = None, jt_epic = None, jt_sprint = None, jt_dueDate = None, jt_blocks = None\<rparr>"

definition longDescriptionCard :: tcard where
  "longDescriptionCard = \<lparr>tc_title = ''t'', tc_description = replicate 16385 CHR ''a'',
     tc_labels = [], tc_dueDate = None, tc_checklist = []\<rparr>"

section \<open>Trello workflow: due dates of created cards\<close>




definition TimeClip :: "int \<Rightarrow> int option" where
  "TimeClip t = (if \<bar>t\<bar> \<le> 8640000000000000 then Some t else None)"


definition toISOString :: "int option \<Rightarrow> exn + int" where
  "toISOString d = (case d of None \<Rightarrow> Inl (Exn ''RangeError'' ''Invalid time value'')
                    | Some t \<Rightarrow> Inr t)"







section \<open>Numbers in strings\<close>

text \<open>The decimal rendering of a natural number, as a template literal prints it.\<close>

fun string_of_nat :: "nat \<Rightarrow> string" where
  "string_of_nat n =
     (if n < 10 then [char_of (48 + n)]
      else string_of_nat (n div 10) @ [char_of (48 + n mod 10)])"

text \<open>
  \<open>parseInt(s)\<close> without a radix: leading white space is skipped, then an optional
  sign, then a \<open>0x\<close> or \<open>0X\<close> prefix selects hexadecimal; the longest run of digits
  is read, and the result is \<open>NaN\<close> (\<open>None\<close>) when that run is empty.
\<close>

definition digitVal :: "char \<Rightarrow> nat option" where
  "digitVal c =
     (let n = (of_char c :: nat) in
      if 48 \<le> n \<and> n \<le> 57 then Some (n - 48)
      else if 97 \<le> n \<and> n \<le> 122 then Some (n - 87)
      else if 65 \<le> n \<and> n \<le> 90 then Some (n - 55)
      else None)"

definition isRadixDigit :: "nat \<Rightarrow> char \<Rightarrow> bool" where
  "isRadixDigit radix c = (case digitVal c of None \<Rightarrow> False | Some d \<Rightarrow> d < radix)"

definition readDigits :: "nat \<Rightarrow> string \<Rightarrow> int option" where
  "readDigits radix s =
     (let ds = takeWhile (isRadixDigit radix) s in
      if ds = [] then None
      else Some (foldl (\<lambda>acc c. acc * int radix + int (the (digitVal c))) 0 ds))"

definition parseInt :: "string \<Rightarrow> int option" where
  "parseInt str =
     (let s = dropWhile isSpace str;
          neg = (s \<noteq> [] \<and> hd s = CHR ''-'');
          s1 = (if s \<noteq> [] \<and> (hd s = CHR ''-'' \<or> hd s = CHR ''+'') then tl s else s);
          hex = (startsWith s1 ''0x'' \<or> startsWith s1 ''0X'');
          r = (if hex then readDigits 16 (drop 2 s1) else readDigits 10 s1)
      in map_option (\<lambda>n. if neg then - n else n) r)"

section \<open>Remote calls\<close>

text \<open>
  A request as the source passes it to \<open>fetch\<close>: method, URL, and the payload that is
  given to \<open>JSON.stringify\<close> for the body. The constant authentication headers are
  left out.
\<close>

record request =
  req_method :: string
  req_url :: string
  req_body :: "json option"

text \<open>
  A response: status code, status text, the \<open>Retry-After\<close> header (\<open>headers.get\<close> yields
  \<open>null\<close>, here \<open>None\<close>, when it is absent), the body as \<open>response.text()\<close> gives it,
  and the body as \<open>response.json()\<close> decodes it, \<open>None\<close> when the body is not JSON
  and \<open>json()\<close> rejects with a SyntaxError.
\<close>

record response =
  status :: nat
  statusText :: string
  retryAfter :: "string option"
  text_body :: string
  json_body :: "json option"

definition ok :: "response \<Rightarrow> bool" where
  "ok r = (200 \<le> status r \<and> status r \<le> 299)"

text \<open>A \<open>fetch\<close> either rejects (network failure, timeout) or resolves to a response.\<close>

datatype fetch_outcome = Rejected exn | Responded response

text \<open>
  The remote side is a script: the outcome of the \<open>k\<close>-th \<open>fetch\<close> of the run, for
  every \<open>k\<close>. What a run does to the outside is its trace: the requests it sends and
  the delays it passes to \<open>setTimeout\<close> (\<open>None\<close> for \<open>NaN\<close>), in order.
\<close>

type_synonym remote = "nat \<Rightarrow> fetch_outcome"

datatype event = Fetch request | Sleep "int option"

record io =
  trace :: "event list"
  fetches :: nat

definition io0 :: io where
  "io0 = \<lparr>trace = [], fetches = 0\<rparr>"

definition fetch :: "remote \<Rightarrow> request \<Rightarrow> io \<Rightarrow> fetch_outcome \<times> io" where
  "fetch env rq s = (env (fetches s), s\<lparr>trace := trace s @ [Fetch rq], fetches := Suc (fetches s)\<rparr>)"

definition sleep :: "int option \<Rightarrow> io \<Rightarrow> io" where
  "sleep ms s = s\<lparr>trace := trace s @ [Sleep ms]\<rparr>"

definition SyntaxError_json :: exn where
  "SyntaxError_json = Exn ''SyntaxError'' ''Unexpected token in JSON''"

section \<open>Trello tool: makeApiCall\<close>

text \<open>
  \<^verbatim>\<open>async function makeApiCall(url, options = {}, retries = 3) {
    for (let i = 0; i < retries; i++) {
      try {
        const response = await fetch(url, options);
        if (response.status === 429) {
          const waitTime = Math.pow(2, i) * 1000; // Exponential backoff
          await new Promise(resolve => setTimeout(resolve, waitTime));
          continue;
        }
        if (!response.ok) {
          const errorText = await response.text();
          throw new Error(`API Error (${response.status}): ${errorText}`);
        }
        return await response.json();
      } catch (error) {
        if (i === retries - 1) throw error;
        // Network error - wait before retry
        const waitTime = Math.pow(2, i) * 1000;
        await new Promise(resolve => setTimeout(resolve, waitTime));
      }
    }
  }\<close>
  \<open>makeApiCall_catch\<close> is the catch block: the \<open>throw\<close> of the API error and a
  rejecting \<open>json()\<close> sit inside the \<open>try\<close> and land there as a rejected \<open>fetch\<close>
  does. A loop that runs out returns \<open>undefined\<close>.
\<close>

definition apiError :: "response \<Rightarrow> exn" where
  "apiError r = Error (''API Error ('' @ string_of_nat (status r) @ ''): '' @ text_body r)"

function makeApiCall_from ::
  "remote \<Rightarrow> request \<Rightarrow> nat \<Rightarrow> nat \<Rightarrow> io \<Rightarrow> (exn + jsval) \<times> io" where
  "makeApiCall_from env rq retries i s =
     (if i < retries then
        (let (outcome, s1) = fetch env rq s;
             waitTime = Some (2 ^ i * 1000);
             makeApiCall_catch = (\<lambda>error.
               if Suc i = retries then (Inl error, s1)
               else makeApiCall_from env rq retries (Suc i) (sleep waitTime s1))
         in case outcome of
              Rejected error \<Rightarrow> makeApiCall_catch error
            | Responded r \<Rightarrow>
                if status r = 429
                  then makeApiCall_from env rq retries (Suc i) (sleep waitTime s1)
                else if \<not> ok r then makeApiCall_catch (apiError r)
                else (case json_body r of
                        None \<Rightarrow> makeApiCall_catch SyntaxError_json
                      | Some j \<Rightarrow> (Inr (Some j), s1)))
      else (Inr None, s))"
  by pat_completeness auto
termination
  by (relation "measure (\<lambda>(env, rq, retries, i, s). retries - i)") auto

definition makeApiCall :: "remote \<Rightarrow> request \<Rightarrow> nat \<Rightarrow> io \<Rightarrow> (exn + jsval) \<times> io" where
  "makeApiCall env rq retries s = makeApiCall_from env rq retries 0 s"

section \<open>Jira tool: makeJiraRequest\<close>

text \<open>
  \<^verbatim>\<open>async function makeJiraRequest(url, options, maxRetries = 3): Promise<Response> {
    let lastError: Error | null = null;
    for (let attempt = 1; attempt <= maxRetries; attempt++) {
      try {
        const response = await fetch(url, {...options, signal: AbortSignal.timeout(30000)});
        if (response.status === 429) {
          const retryAfter = response.headers.get('Retry-After');
          const delay = retryAfter ? parseInt(retryAfter) * 1000 : Math.pow(2, attempt) * 1000;
          await new Promise(resolve => setTimeout(resolve, delay));
          continue;
        }
        return response;
      } catch (error: any) {
        lastError = error;
        if (attempt < maxRetries) {
          const delay = Math.pow(2, attempt) * 1000;
          await new Promise(resolve => setTimeout(resolve, delay));
        }
      }
    }
    throw lastError || new Error('Request failed after retries');
  }\<close>
\<close>

definition rateLimitDelay :: "response \<Rightarrow> nat \<Rightarrow> int option" where
  "rateLimitDelay r attempt =
     (case retryAfter r of
        None \<Rightarrow> Some (2 ^ attempt * 1000)
      | Some ra \<Rightarrow> if ra \<noteq> [] then map_option (\<lambda>n. n * 1000) (parseInt ra)
                    else Some (2 ^ attempt * 1000))"

function makeJiraRequest_from ::
  "remote \<Rightarrow> request \<Rightarrow> nat \<Rightarrow> nat \<Rightarrow> exn option \<Rightarrow> io \<Rightarrow> (exn + response) \<times> io" where
  "makeJiraRequest_from env rq maxRetries attempt lastError s =
     (if attempt \<le> maxRetries then
        (let (outcome, s1) = fetch env rq s
         in case outcome of
              Responded r \<Rightarrow>
                if status r = 429
                  then makeJiraRequest_from env rq maxRetries (Suc attempt) lastError
                         (sleep (rateLimitDelay r attempt) s1)
                else (Inr r, s1)
            | Rejected error \<Rightarrow>
                makeJiraRequest_from env rq maxRetries (Suc attempt) (Some error)
                  (if attempt < maxRetries then sleep (Some (2 ^ attempt * 1000)) s1 else s1))
      else (Inl (case lastError of Some e \<Rightarrow> e
                 | None \<Rightarrow> Error ''Request failed after retries''), s))"
  by pat_completeness auto
termination
  by (relation "measure (\<lambda>(env, rq, maxRetries, attempt, lastError, s). Suc maxRetries - attempt)")
    auto

definition makeJiraRequest :: "remote \<Rightarrow> request \<Rightarrow> io \<Rightarrow> (exn + response) \<times> io" where
  "makeJiraRequest env rq s = makeJiraRequest_from env rq 3 1 None s"

text \<open>Scripts for examples: the listed outcomes in order, then \<open>d\<close> for ever.\<close>

definition script :: "fetch_outcome list \<Rightarrow> fetch_outcome \<Rightarrow> remote" where
  "script xs d = (\<lambda>k. if k < length xs then xs ! k else d)"

definition resp :: "nat \<Rightarrow> string \<Rightarrow> json option \<Rightarrow> fetch_outcome" where
  "resp st body j = Responded \<lparr>status = st, statusText = [], retryAfter = None, text_body = body, json_body = j\<rparr>"


definition getMe :: request where
  "getMe = \<lparr>req_method = ''GET'', req_url = ''https://api.trello.com/1/members/me'',
            req_body = None\<rparr>"






definition okResponse :: response where
  "okResponse = \<lparr>status = 200, statusText = [], retryAfter = None, text_body = ''{}'', json_body = Some (JObj [])\<rparr>"


section \<open>JavaScript operations on decoded values\<close>

text \<open>A combinator for code that may throw: run \<open>m\<close>, then \<open>f\<close> on its value.\<close>

definition andThen :: "exn + 'a \<Rightarrow> ('a \<Rightarrow> exn + 'b) \<Rightarrow> exn + 'b" where
  "andThen m f = (case m of Inl e \<Rightarrow> Inl e | Inr a \<Rightarrow> f a)"

text \<open>\<open>String(v)\<close>, the rendering of a value inside a template literal.\<close>

definition string_of_int :: "int \<Rightarrow> string" where
  "string_of_int n = (if n < 0 then ''-'' @ string_of_nat (nat (- n)) else string_of_nat (nat n))"

fun String_of_json :: "json \<Rightarrow> string" where
  "String_of_json JNull = ''null''"
| "String_of_json (JBool b) = (if b then ''true'' else ''false'')"
| "String_of_json (JNum n) = string_of_int n"
| "String_of_json (JStr s) = s"
| "String_of_json (JArr xs) =
     join '','' (map (\<lambda>x. if x = JNull then [] else String_of_json x) xs)"
| "String_of_json (JObj kvs) = ''[object Object]''"

definition String_of :: "jsval \<Rightarrow> string" where
  "String_of v = (case v of None \<Rightarrow> ''undefined'' | Some j \<Rightarrow> String_of_json j)"



text \<open>\<open>v === "s"\<close> for a string \<open>s\<close>.\<close>

definition eqStr :: "jsval \<Rightarrow> string \<Rightarrow> bool" where
  "eqStr v s = (v = Some (JStr s))"

text \<open>\<open>v == null\<close>: the value is \<open>undefined\<close> or \<open>null\<close>.\<close>

definition nullish :: "jsval \<Rightarrow> bool" where
  "nullish v = (v = None \<or> v = Some JNull)"

definition TypeError_call :: "string \<Rightarrow> exn" where
  "TypeError_call k = Exn ''TypeError'' (k @ '' is not a function'')"

definition TypeError_iter :: exn where
  "TypeError_iter = Exn ''TypeError'' ''value is not iterable''"


text \<open>
  \<open>xs.find(cb)\<close> on the elements of an array, with a callback that may throw: the
  first element the callback accepts, \<open>undefined\<close> when there is none.
\<close>

fun findFirst :: "(json \<Rightarrow> exn + bool) \<Rightarrow> json list \<Rightarrow> exn + jsval" where
  "findFirst cb [] = Inr None"
| "findFirst cb (x # xs) =
     (case cb x of Inl e \<Rightarrow> Inl e
      | Inr b \<Rightarrow> if b then Inr (Some x) else findFirst cb xs)"

text \<open>
  \<open>v.find(cb)\<close> on a decoded value: only an array has the method; reading it off
  \<open>undefined\<close> or \<open>null\<close> throws, calling it on anything else throws.
\<close>

definition find_js :: "jsval \<Rightarrow> (json \<Rightarrow> exn + bool) \<Rightarrow> exn + jsval" where
  "find_js v cb =
     (if nullish v then Inl (TypeError_read ''find'')
      else case v of Some (JArr xs) \<Rightarrow> findFirst cb xs
           | _ \<Rightarrow> Inl (TypeError_call ''find''))"

text \<open>
  \<open>v.values?.find(cb)\<close>. On an array, \<open>values\<close> is the iterator method of the
  prototype, which has no \<open>find\<close>: the call throws.
\<close>

definition values_find :: "jsval \<Rightarrow> (json \<Rightarrow> exn + bool) \<Rightarrow> exn + jsval" where
  "values_find v cb =
     (if isArray v then Inl (TypeError_call ''find'')
      else andThen (getprop v ''values'')
             (\<lambda>vals. if nullish vals then Inr None else find_js vals cb))"

text \<open>
  The elements a \<open>for (const x of v)\<close> visits: those of an array, the characters of a
  string; any other value is not iterable.
\<close>

definition iterate :: "jsval \<Rightarrow> exn + json list" where
  "iterate v =
     (case v of Some (JArr xs) \<Rightarrow> Inr xs
      | Some (JStr s) \<Rightarrow> Inr (map (\<lambda>c. JStr [c]) s)
      | _ \<Rightarrow> Inl TypeError_iter)"

text \<open>\<open>v[0]\<close>.\<close>

definition first_element :: "jsval \<Rightarrow> exn + jsval" where
  "first_element v =
     (case v of Some (JArr xs) \<Rightarrow> Inr (case xs of [] \<Rightarrow> None | x # _ \<Rightarrow> Some x)
      | Some (JStr s) \<Rightarrow> Inr (case s of [] \<Rightarrow> None | c # _ \<Rightarrow> Some (JStr [c]))
      | _ \<Rightarrow> getprop v ''0'')"

text \<open>
  \<open>v > 0\<close> for a length: true for a positive number and for \<open>true\<close>, false for
  \<open>undefined\<close>, \<open>null\<close>, arrays and objects. The numeric conversion of a string is
  not modelled; a string counts as not positive.
\<close>

definition positive :: "jsval \<Rightarrow> bool" where
  "positive v = (case v of Some (JNum n) \<Rightarrow> n > 0 | Some (JBool b) \<Rightarrow> b | _ \<Rightarrow> False)"

text \<open>
  An object literal handed to \<open>JSON.stringify\<close>: properties whose value is
  \<open>undefined\<close> are dropped.
\<close>

definition obj :: "(string \<times> jsval) list \<Rightarrow> json" where
  "obj kvs = JObj (concat (map (\<lambda>(k, v). case v of None \<Rightarrow> [] | Some j \<Rightarrow> [(k, j)]) kvs))"

text \<open>\<open>response.json()\<close>.\<close>

definition json_of :: "response \<Rightarrow> exn + json" where
  "json_of r = (case json_body r of None \<Rightarrow> Inl SyntaxError_json | Some j \<Rightarrow> Inr j)"

text \<open>
  \<open>Object.entries(v)\<close> of a decoded value: the own properties of an object in the order
  of their first appearance with the value of their last, the elements of an array
  or the characters of a string under their indices, nothing for other values.
\<close>

fun indexed :: "nat \<Rightarrow> 'a list \<Rightarrow> (string \<times> 'a) list" where
  "indexed i [] = []"
| "indexed i (x # xs) = (string_of_nat i, x) # indexed (Suc i) xs"

definition entries :: "jsval \<Rightarrow> (string \<times> json) list" where
  "entries v =
     (case v of
        Some (JObj kvs) \<Rightarrow>
          concat (map (\<lambda>k. case map_of (rev kvs) k of None \<Rightarrow> [] | Some x \<Rightarrow> [(k, x)])
                   (rev (remdups (rev (map fst kvs)))))
      | Some (JArr xs) \<Rightarrow> indexed 0 xs
      | Some (JStr s) \<Rightarrow> indexed 0 (map (\<lambda>c. JStr [c]) s)
      | _ \<Rightarrow> [])"

text \<open>\<open>a || b\<close>.\<close>

definition orElse :: "jsval \<Rightarrow> jsval \<Rightarrow> jsval" where
  "orElse a b = (if truthy a then a else b)"

text \<open>
  \<open>encodeURIComponent\<close>: letters, digits and \<open>- _ . ! ~ * ' ( )\<close> stay, every other
  character becomes the percent-encoded bytes of its UTF-8 form.
\<close>

definition hexDigit :: "nat \<Rightarrow> char" where
  "hexDigit n = (if n < 10 then char_of (48 + n) else char_of (55 + n))"

definition percent :: "nat \<Rightarrow> string" where
  "percent b = [CHR ''%'', hexDigit (b div 16), hexDigit (b mod 16)]"

definition unreserved :: "char \<Rightarrow> bool" where
  "unreserved c =
     (let n = (of_char c :: nat) in
      (48 \<le> n \<and> n \<le> 57) \<or> (65 \<le> n \<and> n \<le> 90) \<or> (97 \<le> n \<and> n \<le> 122) \<or>
      c \<in> set ''-_.!~*()'' \<or> n = 39)"

definition encodeURIComponent :: "string \<Rightarrow> string" where
  "encodeURIComponent s =
     concat (map (\<lambda>c. let n = (of_char c :: nat) in
                      if unreserved c then [c]
                      else if n < 128 then percent n
                      else percent (192 + n div 64) @ percent (128 + n mod 64)) s)"

section \<open>Jira tool\<close>

record JiraConfig =
  email :: string
  apiToken :: string
  baseUrl :: string

text \<open>
  What the tool takes from the platform: the time value of \<open>new Date(s)\<close> (\<open>None\<close>
  for an invalid date), the clock \<open>new Date()\<close>, taken as constant over one run, and
  \<open>toISOString\<close> of a time value.
\<close>

record platform =
  parseDate :: "string \<Rightarrow> int option"
  nowMs :: int
  isoString :: "int \<Rightarrow> string"

text \<open>The tool's output: \<open>{success, data, error}\<close>, with the variants of \<open>data\<close>.\<close>

record 'd tool_result =
  success :: bool
  data :: 'd
  error :: "string option"

datatype jira_data =
  Text string
  | Created (d_projectKey: string) (d_createdIssues: "jsval list") (d_boardUrl: string)
      (d_warnings: "string list option")

type_synonym jira_result = "jira_data tool_result"

definition jira_failure :: "string \<Rightarrow> string \<Rightarrow> jira_result" where
  "jira_failure d e = \<lparr>success = False, data = Text d, error = Some e\<rparr>"

text \<open>
  \<^verbatim>\<open>function validateConfig(config: JiraConfig): string[] {
    const errors: string[] = [];
    if (!config.email) errors.push("JIRA_EMAIL environment variable is required");
    else if (!config.email.includes('@')) errors.push("JIRA_EMAIL must be a valid email address");
    if (!config.apiToken) errors.push("JIRA_API_TOKEN environment variable is required");
    else if (config.apiToken.length < 10) errors.push("JIRA_API_TOKEN appears to be too short");
    if (!config.baseUrl) errors.push("JIRA_BASE_URL environment variable is required");
    else if (!config.baseUrl.startsWith('https://')) errors.push("JIRA_BASE_URL must start with https://");
    return errors;
  }\<close>
\<close>

definition validateConfig :: "JiraConfig \<Rightarrow> string list" where
  "validateConfig config =
     (if email config = [] then [''JIRA_EMAIL environment variable is required'']
      else if CHR ''@'' \<notin> set (email config) then [''JIRA_EMAIL must be a valid email address'']
      else [])
     @ (if apiToken config = [] then [''JIRA_API_TOKEN environment variable is required'']
        else if length (apiToken config) < 10 then [''JIRA_API_TOKEN appears to be too short'']
        else [])
     @ (if baseUrl config = [] then [''JIRA_BASE_URL environment variable is required'']
        else if \<not> startsWith (baseUrl config) ''https://''
          then [''JIRA_BASE_URL must start with https://'']
        else [])"

text \<open>\<open>/^[A-Z0-9_]{1,10}$/.test(projectKey)\<close>\<close>

definition isUpper :: "char \<Rightarrow> bool" where
  "isUpper c = (65 \<le> (of_char c :: nat) \<and> (of_char c :: nat) \<le> 90)"

definition isValidProjectKey :: "string \<Rightarrow> bool" where
  "isValidProjectKey projectKey =
     (1 \<le> length projectKey \<and> length projectKey \<le> 10 \<and>
      list_all (\<lambda>c. isUpper c \<or> isDigit c \<or> c = CHR ''_'') projectKey)"

text \<open>An optional string field is truthy when it is present and not empty.\<close>

definition present :: "string option \<Rightarrow> bool" where
  "present v = (case v of None \<Rightarrow> False | Some s \<Rightarrow> s \<noteq> [])"

definition type_name :: "issue_type \<Rightarrow> string" where
  "type_name t = (case t of Story \<Rightarrow> ''Story'' | Task \<Rightarrow> ''Task'' | Bug \<Rightarrow> ''Bug''
                  | Epic \<Rightarrow> ''Epic'')"

text \<open>
  validateTasks. The first \<open>forEach\<close> reports, for the task at \<open>index\<close>, a title
  already seen among the tasks before it and a due date that is invalid or lies before
  now; \<open>taskErrors\<close> is its body, \<open>validateTasks_titles\<close> the loop with the set
  \<open>taskTitles\<close> it grows. The second \<open>forEach\<close> reports references to epics that
  are neither an Epic of the list nor look like an issue key.
  \<^verbatim>\<open>tasks.forEach((task, index) => {
    const taskPrefix = `Task ${index + 1}`;
    if (taskTitles.has(task.title)) errors.push(`${taskPrefix}: Duplicate task title "${task.title}"`);
    taskTitles.add(task.title);
    if (task.dueDate) {
      const dueDate = new Date(task.dueDate);
      if (isNaN(dueDate.getTime())) errors.push(`${taskPrefix}: Invalid due date format "${task.dueDate}"`);
      else if (dueDate < new Date()) errors.push(`${taskPrefix}: Due date "${task.dueDate}" is in the past`);
    }
    if (task.type === "Epic") epics.add(task.title);
  });
  tasks.forEach((task, index) => {
    if (task.epic && !epics.has(task.epic) && !task.epic.includes('-'))
      errors.push(`Task ${index + 1}: Referenced epic "${task.epic}" not found in task list`);
  });\<close>
\<close>

definition quoted :: "string \<Rightarrow> string" where
  "quoted s = [CHR 0x22] @ s @ [CHR 0x22]"

definition taskPrefix :: "nat \<Rightarrow> string" where
  "taskPrefix index = ''Task '' @ string_of_nat (index + 1)"

definition duplicateError :: "nat \<Rightarrow> jtask \<Rightarrow> string" where
  "duplicateError index task =
     taskPrefix index @ '': Duplicate task title '' @ quoted (jt_title task)"

definition pastDueError :: "nat \<Rightarrow> string \<Rightarrow> string" where
  "pastDueError index d = taskPrefix index @ '': Due date '' @ quoted d @ '' is in the past''"

definition taskErrors :: "platform \<Rightarrow> string set \<Rightarrow> nat \<Rightarrow> jtask \<Rightarrow> string list" where
  "taskErrors pf taskTitles index task =
     (if jt_title task \<in> taskTitles then [duplicateError index task] else [])
     @ (case jt_dueDate task of
          None \<Rightarrow> []
        | Some d \<Rightarrow>
            if d = [] then []
            else (case parseDate pf d of
                    None \<Rightarrow> [taskPrefix index @ '': Invalid due date format '' @ quoted d]
                  | Some dueDate \<Rightarrow> if dueDate < nowMs pf then [pastDueError index d] else []))"

fun validateTasks_titles :: "platform \<Rightarrow> string set \<Rightarrow> nat \<Rightarrow> jtask list \<Rightarrow> string list" where
  "validateTasks_titles pf taskTitles index [] = []"
| "validateTasks_titles pf taskTitles index (task # tasks) =
     taskErrors pf taskTitles index task
     @ validateTasks_titles pf (insert (jt_title task) taskTitles) (Suc index) tasks"

fun validateTasks_epics :: "string set \<Rightarrow> nat \<Rightarrow> jtask list \<Rightarrow> string list" where
  "validateTasks_epics epics index [] = []"
| "validateTasks_epics epics index (task # tasks) =
     (case jt_epic task of
        None \<Rightarrow> []
      | Some e \<Rightarrow>
          if e \<noteq> [] \<and> e \<notin> epics \<and> CHR ''-'' \<notin> set e
          then [taskPrefix index @ '': Referenced epic '' @ quoted e @ '' not found in task list'']
          else [])
     @ validateTasks_epics epics (Suc index) tasks"

definition validateTasks :: "platform \<Rightarrow> jtask list \<Rightarrow> string list" where
  "validateTasks pf tasks =
     validateTasks_titles pf {} 0 tasks
     @ validateTasks_epics (set (map jt_title (filter (\<lambda>t. jt_type t = Epic) tasks))) 0 tasks"

subsection \<open>Requests of the Jira tool\<close>

definition GET :: "string \<Rightarrow> request" where
  "GET url = \<lparr>req_method = ''GET'', req_url = url, req_body = None\<rparr>"

definition POST :: "string \<Rightarrow> json \<Rightarrow> request" where
  "POST url payload = \<lparr>req_method = ''POST'', req_url = url, req_body = Some payload\<rparr>"


text \<open>
  createIssue, the search for the assignee:
  \<^verbatim>\<open>try {
    const userRes = await makeJiraRequest(`${config.baseUrl}/rest/api/3/user/search?query=${encodeURIComponent(issueData.assignee)}`, { headers });
    if (userRes.ok) {
      const users = await userRes.json();
      if (users.length > 0) payload.fields.assignee = { id: users[0].accountId };
      else console.warn(...);
    } else console.warn(...);
  } catch (error) { console.warn(...); }\<close>
  The result is the \<open>assignee\<close> property added to the payload, if any.
\<close>

definition findAssignee ::
  "remote \<Rightarrow> JiraConfig \<Rightarrow> string \<Rightarrow> io \<Rightarrow> (string \<times> jsval) list \<times> io" where
  "findAssignee env config assignee s =
     (case makeJiraRequest env
             (GET (baseUrl config @ ''/rest/api/3/user/search?query='' @ encodeURIComponent assignee)) s of
        (Inl err, s1) \<Rightarrow> ([], s1)
      | (Inr userRes, s1) \<Rightarrow>
          if ok userRes then
            (case andThen (json_of userRes) (\<lambda>users.
                    andThen (getprop (Some users) ''length'') (\<lambda>len.
                      if positive len
                      then andThen (first_element (Some users)) (\<lambda>u.
                             andThen (getprop u ''accountId'') (\<lambda>accountId.
                               Inr [(''assignee'', Some (obj [(''id'', accountId)]))]))
                      else Inr [])) of
               Inl err \<Rightarrow> ([], s1)
             | Inr fs \<Rightarrow> (fs, s1))
          else ([], s1))"

text \<open>The Atlassian document with one paragraph of text.\<close>

definition adf_paragraph :: "string \<Rightarrow> json" where
  "adf_paragraph t = obj [(''type'', Some (JStr ''paragraph'')),
     (''content'', Some (JArr [obj [(''text'', Some (JStr t)), (''type'', Some (JStr ''text''))]]))]"

definition adf_doc :: "json list \<Rightarrow> json" where
  "adf_doc paragraphs = obj [(''type'', Some (JStr ''doc'')), (''version'', Some (JNum 1)),
     (''content'', Some (JArr paragraphs))]"

text \<open>
  createIssue. \<open>issueType\<close> is the name passed as \<open>issueData.issueType\<close>, \<open>epic\<close> the
  key passed as \<open>issueData.epic\<close>, \<open>epicLinkField\<close> the field id passed on. Every
  failure, of a request or of decoding, ends in \<open>return null\<close>; otherwise the decoded
  body of the answer to the POST is returned.
  \<^verbatim>\<open>try {
    const payload = { fields: { project: {key: issueData.projectKey}, summary: issueData.summary,
      description: {type: "doc", version: 1, content: [{type: "paragraph",
        content: [{ text: issueData.description || "No description provided", type: "text" }]}]},
      issuetype: { name: issueData.issueType } } };
    if (issueData.assignee) { ... }
    if (issueData.epic && issueData.issueType !== "Epic") {
      if (issueData.isTeamManaged) payload.fields.parent = { key: issueData.epic };
      else if (issueData.epicLinkField) payload.fields[issueData.epicLinkField] = issueData.epic;
    }
    if (issueData.dueDate) {
      const dueDate = new Date(issueData.dueDate);
      if (!isNaN(dueDate.getTime())) payload.fields.duedate = issueData.dueDate;
    }
    const res = await makeJiraRequest(`${config.baseUrl}/rest/api/3/issue`, {method: 'POST', headers, body: JSON.stringify(payload)});
    if (!res.ok) return null;
    return await res.json();
  } catch (error) { return null; }\<close>
\<close>

definition issuePayload ::
  "platform \<Rightarrow> string \<Rightarrow> jtask \<Rightarrow> string \<Rightarrow> jsval \<Rightarrow> bool \<Rightarrow> string option \<Rightarrow>
   (string \<times> jsval) list \<Rightarrow> json" where
  "issuePayload pf projectKey task issueType epic isTeamManaged epicLinkField assigneeField =
     obj [(''fields'', Some (obj (
       [(''project'', Some (obj [(''key'', Some (JStr projectKey))])),
        (''summary'', Some (JStr (jt_title task))),
        (''description'', Some (adf_doc [adf_paragraph
            (if jt_description task = [] then ''No description provided''
             else jt_description task)])),
        (''issuetype'', Some (obj [(''name'', Some (JStr issueType))]))]
       @ assigneeField
       @ (if truthy epic \<and> issueType \<noteq> ''Epic'' then
            (if isTeamManaged then [(''parent'', Some (obj [(''key'', epic)]))]
             else if present epicLinkField then [(the epicLinkField, epic)]
             else [])
          else [])
       @ (case jt_dueDate task of
            None \<Rightarrow> []
          | Some d \<Rightarrow> if d \<noteq> [] \<and> parseDate pf d \<noteq> None then [(''duedate'', Some (JStr d))]
                        else []))))]"

definition createIssue ::
  "remote \<Rightarrow> platform \<Rightarrow> JiraConfig \<Rightarrow> string \<Rightarrow> jtask \<Rightarrow> string \<Rightarrow> jsval \<Rightarrow> bool \<Rightarrow>
   string option \<Rightarrow> io \<Rightarrow> jsval \<times> io" where
  "createIssue env pf config projectKey task issueType epic isTeamManaged epicLinkField s =
     (let (assigneeField, s1) =
            (if present (jt_assignee task) then findAssignee env config (the (jt_assignee task)) s
             else ([], s))
      in case makeJiraRequest env
                (POST (baseUrl config @ ''/rest/api/3/issue'')
                   (issuePayload pf projectKey task issueType epic isTeamManaged epicLinkField
                      assigneeField)) s1 of
           (Inl err, s2) \<Rightarrow> (Some JNull, s2)
         | (Inr res, s2) \<Rightarrow>
             if \<not> ok res then (Some JNull, s2)
             else (case json_of res of Inl err \<Rightarrow> (Some JNull, s2)
                   | Inr issue \<Rightarrow> (Some issue, s2)))"

text \<open>
  createSprint: the sprint starts now and ends 14 days later; \<open>formatDate\<close> is
  \<open>date.toISOString().replace(/\.\d{3}Z$/, '.000Z')\<close>. As in createIssue, every
  failure ends in \<open>return null\<close>.
\<close>

definition formatDate :: "platform \<Rightarrow> int \<Rightarrow> string" where
  "formatDate pf t =
     (let str = isoString pf t; n = length str in
      if 5 \<le> n \<and> str ! (n - 5) = CHR ''.'' \<and> isDigit (str ! (n - 4)) \<and> isDigit (str ! (n - 3))
         \<and> isDigit (str ! (n - 2)) \<and> str ! (n - 1) = CHR ''Z''
      then take (n - 5) str @ ''.000Z'' else str)"

definition createSprint ::
  "remote \<Rightarrow> platform \<Rightarrow> JiraConfig \<Rightarrow> jsval \<Rightarrow> string \<Rightarrow> io \<Rightarrow> jsval \<times> io" where
  "createSprint env pf config boardId sprintName s =
     (case makeJiraRequest env
             (POST (baseUrl config @ ''/rest/agile/1.0/sprint'')
                (obj [(''name'', Some (JStr sprintName)), (''originBoardId'', boardId),
                      (''startDate'', Some (JStr (formatDate pf (nowMs pf)))),
                      (''endDate'', Some (JStr (formatDate pf (nowMs pf + 14 * 24 * 60 * 60 * 1000)))),
                      (''goal'', Some (JStr (''Sprint: '' @ sprintName)))])) s of
        (Inl err, s1) \<Rightarrow> (Some JNull, s1)
      | (Inr res, s1) \<Rightarrow>
          if \<not> ok res then (Some JNull, s1)
          else (case json_of res of Inl err \<Rightarrow> (Some JNull, s1)
                | Inr sprint \<Rightarrow> (Some sprint, s1)))"

text \<open>addIssueToSprint: true exactly when the POST is answered with a 2xx status.\<close>

definition addIssueToSprint ::
  "remote \<Rightarrow> JiraConfig \<Rightarrow> jsval \<Rightarrow> jsval \<Rightarrow> io \<Rightarrow> bool \<times> io" where
  "addIssueToSprint env config sprintId issueKey s =
     (case makeJiraRequest env
             (POST (baseUrl config @ ''/rest/agile/1.0/sprint/'' @ String_of sprintId @ ''/issue'')
                (obj [(''issues'', Some (JArr (case issueKey of None \<Rightarrow> [JNull] | Some k \<Rightarrow> [k])))])) s of
        (Inl err, s1) \<Rightarrow> (False, s1)
      | (Inr res, s1) \<Rightarrow> (ok res, s1))"

text \<open>
  createIssueLink: when the list of link types can be fetched, the type must be in
  it (by \<open>name\<close>, \<open>inward\<close> or \<open>outward\<close>); then the link is posted.
  \<^verbatim>\<open>try {
    const linkTypesRes = await makeJiraRequest(`${config.baseUrl}/rest/api/3/issueLinkType`, { headers });
    if (linkTypesRes.ok) {
      const linkTypes = await linkTypesRes.json();
      const availableLinkType = linkTypes.issueLinkTypes?.find((lt: any) =>
        lt.name === linkType || lt.inward === linkType || lt.outward === linkType);
      if (!availableLinkType) return false;
    }
    const res = await makeJiraRequest(`${config.baseUrl}/rest/api/3/issueLink`, {method: 'POST', ...});
    if (!res.ok) return false;
    return true;
  } catch (error) { return false; }\<close>
\<close>

definition isLinkType :: "string \<Rightarrow> json \<Rightarrow> exn + bool" where
  "isLinkType linkType lt =
     andThen (getprop (Some lt) ''name'') (\<lambda>n.
     andThen (getprop (Some lt) ''inward'') (\<lambda>i.
     andThen (getprop (Some lt) ''outward'') (\<lambda>out.
       Inr (eqStr n linkType \<or> eqStr i linkType \<or> eqStr out linkType))))"

definition linkTypeAvailable :: "response \<Rightarrow> string \<Rightarrow> exn + bool" where
  "linkTypeAvailable linkTypesRes linkType =
     andThen (json_of linkTypesRes) (\<lambda>linkTypes.
     andThen (getprop (Some linkTypes) ''issueLinkTypes'') (\<lambda>types.
       if nullish types then Inr False
       else andThen (find_js types (isLinkType linkType)) (\<lambda>availableLinkType.
              Inr (truthy availableLinkType))))"

definition createIssueLink ::
  "remote \<Rightarrow> JiraConfig \<Rightarrow> jsval \<Rightarrow> jsval \<Rightarrow> string \<Rightarrow> io \<Rightarrow> bool \<times> io" where
  "createIssueLink env config outwardIssueKey inwardIssueKey linkType s =
     (case makeJiraRequest env (GET (baseUrl config @ ''/rest/api/3/issueLinkType'')) s of
        (Inl err, s1) \<Rightarrow> (False, s1)
      | (Inr linkTypesRes, s1) \<Rightarrow>
          if ok linkTypesRes \<and> linkTypeAvailable linkTypesRes linkType \<noteq> Inr True
          then (False, s1)
          else (case makeJiraRequest env
                       (POST (baseUrl config @ ''/rest/api/3/issueLink'')
                          (obj [(''type'', Some (obj [(''name'', Some (JStr linkType))])),
                                (''inwardIssue'', Some (obj [(''key'', inwardIssueKey)])),
                                (''outwardIssue'', Some (obj [(''key'', outwardIssueKey)]))])) s1 of
                  (Inl err, s2) \<Rightarrow> (False, s2)
                | (Inr res, s2) \<Rightarrow> (ok res, s2)))"

subsection \<open>writeJiraIssues\<close>

text \<open>
  The function is one \<open>try\<close> block whose \<open>catch\<close> turns any error \<open>e\<close> into the
  failure \<open>jira_caught e\<close>. It is modelled in three parts: what precedes the
  creation of issues (\<open>writeJiraIssues_probe\<close>), the four creation loops
  (\<open>writeJiraIssues_write\<close>) and the result (\<open>writeJiraIssues_result\<close>).
\<close>

definition jira_caught :: "exn \<Rightarrow> jira_result" where
  "jira_caught e = jira_failure (''Failed to create Jira issues: '' @ emessage e) (emessage e)"

text \<open>
  \<^verbatim>\<open>const projectRes = await makeJiraRequest(`${config.baseUrl}/rest/api/3/project/${projectKey}`, { headers });
  if (projectRes.status === 404) return {success: false, data: `Project "${projectKey}" not found ...`, error: "Project not found"};
  if (projectRes.status === 403) return {success: false, data: `Access denied ...`, error: "Access denied"};
  if (!projectRes.ok) { const errorText = await projectRes.text();
    throw new Error(`Failed to fetch project: ${projectRes.status} ${errorText}`); }
  const project = await projectRes.json();\<close>
\<close>

definition fetchProject ::
  "remote \<Rightarrow> JiraConfig \<Rightarrow> string \<Rightarrow> io \<Rightarrow> (jira_result + json) \<times> io" where
  "fetchProject env config projectKey s =
     (case makeJiraRequest env (GET (baseUrl config @ ''/rest/api/3/project/'' @ projectKey)) s of
        (Inl e, s1) \<Rightarrow> (Inl (jira_caught e), s1)
      | (Inr projectRes, s1) \<Rightarrow>
          if status projectRes = 404 then
            (Inl (jira_failure (''Project '' @ quoted projectKey
                     @ '' not found or you don't have permission to access it'')
                   ''Project not found''), s1)
          else if status projectRes = 403 then
            (Inl (jira_failure (''Access denied to project '' @ quoted projectKey
                     @ ''. Check your permissions.'') ''Access denied''), s1)
          else if \<not> ok projectRes then
            (Inl (jira_caught (Error (''Failed to fetch project: ''
                     @ string_of_nat (status projectRes) @ '' '' @ text_body projectRes))), s1)
          else (case json_of projectRes of
                  Inl e \<Rightarrow> (Inl (jira_caught e), s1)
                | Inr project \<Rightarrow> (Inr project, s1)))"

text \<open>
  \<^verbatim>\<open>let board = null;
  try {
    const boardRes = await makeJiraRequest(`${config.baseUrl}/rest/agile/1.0/board`, { headers });
    if (boardRes.ok) {
      const boards = await boardRes.json();
      board = boards.values?.find((b: any) => b.location?.projectKey === projectKey);
    }
  } catch (error) { warnings.push(`Could not fetch boards: ${error}`); }\<close>
\<close>

definition boardOfProject :: "string \<Rightarrow> json \<Rightarrow> exn + bool" where
  "boardOfProject projectKey b =
     andThen (getprop (Some b) ''location'') (\<lambda>location.
       if nullish location then Inr False
       else andThen (getprop location ''projectKey'') (\<lambda>k. Inr (eqStr k projectKey)))"

definition findBoard ::
  "remote \<Rightarrow> JiraConfig \<Rightarrow> string \<Rightarrow> io \<Rightarrow> (jsval \<times> string list) \<times> io" where
  "findBoard env config projectKey s =
     (case makeJiraRequest env (GET (baseUrl config @ ''/rest/agile/1.0/board'')) s of
        (Inl e, s1) \<Rightarrow> ((Some JNull, [''Could not fetch boards: '' @ String_of_exn e]), s1)
      | (Inr boardRes, s1) \<Rightarrow>
          if ok boardRes then
            (case andThen (json_of boardRes) (\<lambda>boards.
                    values_find (Some boards) (boardOfProject projectKey)) of
               Inl e \<Rightarrow> ((Some JNull, [''Could not fetch boards: '' @ String_of_exn e]), s1)
             | Inr board \<Rightarrow> ((board, []), s1))
          else ((Some JNull, []), s1))"

text \<open>
  The search for the field named \<open>Epic Link\<close> in the create metadata:
  \<^verbatim>\<open>for (const project of metaData.projects || []) {
    for (const issueType of project.issuetypes || []) {
      for (const [fieldId, field] of Object.entries(issueType.fields || {})) {
        if ((field as any).name === 'Epic Link') { epicLinkField = fieldId; break; }
      }
      if (epicLinkField) break;
    }
    if (epicLinkField) break;
  }\<close>
  Each function takes the \<open>epicLinkField\<close> found so far and returns the new one. An
  error thrown inside leaves the variable \<open>null\<close> or empty, which the later code does
  not tell apart: the model takes \<open>None\<close>.
\<close>

fun scanFields :: "(string \<times> json) list \<Rightarrow> exn + string option" where
  "scanFields [] = Inr None"
| "scanFields ((fieldId, field) # rest) =
     andThen (getprop (Some field) ''name'') (\<lambda>n.
       if eqStr n ''Epic Link'' then Inr (Some fieldId) else scanFields rest)"

fun scanIssueTypes :: "string option \<Rightarrow> json list \<Rightarrow> exn + string option" where
  "scanIssueTypes epicLinkField [] = Inr epicLinkField"
| "scanIssueTypes epicLinkField (issueType # rest) =
     andThen (getprop (Some issueType) ''fields'') (\<lambda>fs.
     andThen (scanFields (entries (orElse fs (Some (JObj []))))) (\<lambda>found.
       let epicLinkField' = (case found of None \<Rightarrow> epicLinkField | Some f \<Rightarrow> Some f)
       in if present epicLinkField' then Inr epicLinkField'
          else scanIssueTypes epicLinkField' rest))"

fun scanProjects :: "string option \<Rightarrow> json list \<Rightarrow> exn + string option" where
  "scanProjects epicLinkField [] = Inr epicLinkField"
| "scanProjects epicLinkField (project # rest) =
     andThen (getprop (Some project) ''issuetypes'') (\<lambda>its.
     andThen (iterate (orElse its (Some (JArr [])))) (\<lambda>issueTypes.
     andThen (scanIssueTypes epicLinkField issueTypes) (\<lambda>epicLinkField'.
       if present epicLinkField' then Inr epicLinkField'
       else scanProjects epicLinkField' rest)))"

text \<open>
  \<^verbatim>\<open>let epicLinkField = null;
  if (!isTeamManaged) {
    try {
      const metaRes = await makeJiraRequest(`${config.baseUrl}/rest/api/3/issue/createmeta?projectKeys=${projectKey}&expand=projects.issuetypes.fields`, { headers });
      if (metaRes.ok) { const metaData = await metaRes.json(); ... }
    } catch (error) { warnings.push(`Could not fetch field metadata: ${error}`); }
  }\<close>
\<close>

definition findEpicLinkField ::
  "remote \<Rightarrow> JiraConfig \<Rightarrow> string \<Rightarrow> io \<Rightarrow> (string option \<times> string list) \<times> io" where
  "findEpicLinkField env config projectKey s =
     (case makeJiraRequest env
             (GET (baseUrl config @ ''/rest/api/3/issue/createmeta?projectKeys='' @ projectKey
                   @ ''&expand=projects.issuetypes.fields'')) s of
        (Inl e, s1) \<Rightarrow> ((None, [''Could not fetch field metadata: '' @ String_of_exn e]), s1)
      | (Inr metaRes, s1) \<Rightarrow>
          if ok metaRes then
            (case andThen (json_of metaRes) (\<lambda>metaData.
                  andThen (getprop (Some metaData) ''projects'') (\<lambda>ps.
                  andThen (iterate (orElse ps (Some (JArr [])))) (\<lambda>projects.
                    scanProjects None projects))) of
               Inl e \<Rightarrow> ((None, [''Could not fetch field metadata: '' @ String_of_exn e]), s1)
             | Inr epicLinkField \<Rightarrow> ((epicLinkField, []), s1))
          else ((None, []), s1))"

record jira_probe =
  isTeamManaged :: bool
  board :: jsval
  epicLinkField :: "string option"
  probeWarnings :: "string list"

definition writeJiraIssues_probe ::
  "remote \<Rightarrow> JiraConfig \<Rightarrow> string \<Rightarrow> io \<Rightarrow> (jira_result + jira_probe) \<times> io" where
  "writeJiraIssues_probe env config projectKey s =
     (case fetchProject env config projectKey s of
        (Inl r, s1) \<Rightarrow> (Inl r, s1)
      | (Inr project, s1) \<Rightarrow>
          (case getprop (Some project) ''style'' of
             Inl e \<Rightarrow> (Inl (jira_caught e), s1)
           | Inr style \<Rightarrow>
               let teamManaged = eqStr style ''next-gen'';
                   ((b, w1), s2) = findBoard env config projectKey s1;
                   w2 = (if \<not> truthy b
                         then [''No board found for project '' @ projectKey
                               @ ''. Sprint operations will be skipped.'']
                         else []);
                   ((f, w3), s3) = (if \<not> teamManaged then findEpicLinkField env config projectKey s2
                                    else ((None, []), s2))
               in (Inr \<lparr>isTeamManaged = teamManaged, board = b, epicLinkField = f,
                         probeWarnings = w1 @ w2 @ w3\<rparr>, s3)))"

text \<open>
  The bookkeeping of the creation loops: the \<open>warnings\<close> array, the maps
  \<open>issueKeyMap\<close> and \<open>sprintMap\<close> (a stored value may be \<open>undefined\<close>), and the
  arrays \<open>createdIssues\<close> and \<open>failedIssues\<close>.
\<close>

record jira_run =
  warnings :: "string list"
  issueKeyMap :: "string \<rightharpoonup> jsval"
  createdIssues :: "jsval list"
  failedIssues :: "string list"
  sprintMap :: "string \<rightharpoonup> jsval"

text \<open>\<open>map.get(k)\<close>: the stored value, \<open>undefined\<close> for a missing key.\<close>

definition mapGet :: "(string \<rightharpoonup> jsval) \<Rightarrow> string \<Rightarrow> jsval" where
  "mapGet m k = (case m k of None \<Rightarrow> None | Some v \<Rightarrow> v)"

text \<open>
  Loop 1, over the tasks of type Epic. createIssue does not throw, and reading \<open>key\<close>
  off a truthy value does not either, so the \<open>catch\<close> of the loop body is never
  entered.
  \<^verbatim>\<open>const epic = await createIssue(config, headers, {projectKey, summary: task.title,
    description: task.description, issueType: "Epic", assignee: task.assignee,
    dueDate: task.dueDate, isTeamManaged});
  if (epic) { issueKeyMap.set(task.title, epic.key); createdIssues.push(epic.key); }
  else { failedIssues.push(task.title); warnings.push(`Failed to create epic: ${task.title}`); }\<close>
\<close>

definition keyOf :: "jsval \<Rightarrow> jsval" where
  "keyOf issue = (case getprop issue ''key'' of Inl e \<Rightarrow> None | Inr k \<Rightarrow> k)"

definition recordCreated :: "jtask \<Rightarrow> jsval \<Rightarrow> jira_run \<Rightarrow> jira_run" where
  "recordCreated task issue run =
     run\<lparr>issueKeyMap := (issueKeyMap run)(jt_title task \<mapsto> keyOf issue),
          createdIssues := createdIssues run @ [keyOf issue]\<rparr>"

definition failedToCreate :: "string \<Rightarrow> string \<Rightarrow> string" where
  "failedToCreate kind title = ''Failed to create '' @ kind @ '': '' @ title"

definition recordFailed :: "jtask \<Rightarrow> string \<Rightarrow> jira_run \<Rightarrow> jira_run" where
  "recordFailed task kind run =
     run\<lparr>failedIssues := failedIssues run @ [jt_title task],
          warnings := warnings run @ [failedToCreate kind (jt_title task)]\<rparr>"

fun createEpics ::
  "remote \<Rightarrow> platform \<Rightarrow> JiraConfig \<Rightarrow> string \<Rightarrow> bool \<Rightarrow> jtask list \<Rightarrow> jira_run \<Rightarrow> io \<Rightarrow>
   jira_run \<times> io" where
  "createEpics env pf config projectKey teamManaged [] run s = (run, s)"
| "createEpics env pf config projectKey teamManaged (task # rest) run s =
     (let (epic, s1) = createIssue env pf config projectKey task ''Epic'' None teamManaged None s
      in createEpics env pf config projectKey teamManaged rest
           (if truthy epic then recordCreated task epic run else recordFailed task ''epic'' run)
           s1)"

text \<open>
  Loop 2, over \<open>[...new Set(projectData.tasks.map(t => t.sprint).filter(Boolean))]\<close>,
  run only when a board was found.
  \<^verbatim>\<open>const sprint = await createSprint(config, headers, board.id, sprintName);
  if (sprint) sprintMap.set(sprintName, sprint.id);
  else warnings.push(`Failed to create sprint: ${sprintName}`);\<close>
\<close>

definition uniqueSprints :: "jtask list \<Rightarrow> string list" where
  "uniqueSprints tasks =
     rev (remdups (rev (map (\<lambda>t. the (jt_sprint t)) (filter (\<lambda>t. present (jt_sprint t)) tasks))))"

definition idOf :: "jsval \<Rightarrow> jsval" where
  "idOf v = (case getprop v ''id'' of Inl e \<Rightarrow> None | Inr k \<Rightarrow> k)"

fun createSprints ::
  "remote \<Rightarrow> platform \<Rightarrow> JiraConfig \<Rightarrow> jsval \<Rightarrow> string list \<Rightarrow> jira_run \<Rightarrow> io \<Rightarrow>
   jira_run \<times> io" where
  "createSprints env pf config boardId [] run s = (run, s)"
| "createSprints env pf config boardId (sprintName # rest) run s =
     (let (sprint, s1) = createSprint env pf config boardId sprintName s
      in createSprints env pf config boardId rest
           (if truthy sprint then run\<lparr>sprintMap := (sprintMap run)(sprintName \<mapsto> idOf sprint)\<rparr>
            else run\<lparr>warnings := warnings run @ [failedToCreate ''sprint'' sprintName]\<rparr>)
           s1)"

text \<open>
  Loop 3, over the other tasks. First the key of the task's epic:
  \<^verbatim>\<open>let epicKey: string | undefined;
  if (task.epic) {
    epicKey = issueKeyMap.get(task.epic);
    if (!epicKey && task.epic.includes('-') && task.epic.startsWith(projectKey)) epicKey = task.epic;
    if (!epicKey) warnings.push(`Epic "${task.epic}" not found for task "${task.title}". Skipping epic linkage.`);
  }\<close>
\<close>

definition resolveKey :: "string \<Rightarrow> (string \<rightharpoonup> jsval) \<Rightarrow> string \<Rightarrow> jsval" where
  "resolveKey projectKey m name =
     (let k = mapGet m name
      in if \<not> truthy k \<and> CHR ''-'' \<in> set name \<and> startsWith name projectKey
         then Some (JStr name) else k)"

definition epicKeyOf :: "string \<Rightarrow> jira_run \<Rightarrow> jtask \<Rightarrow> jsval \<times> jira_run" where
  "epicKeyOf projectKey run task =
     (if present (jt_epic task) then
        (let epicKey = resolveKey projectKey (issueKeyMap run) (the (jt_epic task))
         in (epicKey,
             if \<not> truthy epicKey
             then run\<lparr>warnings := warnings run @ [''Epic '' @ quoted (the (jt_epic task))
                        @ '' not found for task '' @ quoted (jt_title task)
                        @ ''. Skipping epic linkage.'']\<rparr>
             else run))
      else (None, run))"

text \<open>
  Then the issue, and its sprint:
  \<^verbatim>\<open>const issue = await createIssue(config, headers, {..., issueType: task.type, epic: epicKey, ..., epicLinkField});
  if (issue) {
    issueKeyMap.set(task.title, issue.key); createdIssues.push(issue.key);
    if (task.sprint && sprintMap.has(task.sprint)) {
      const addedToSprint = await addIssueToSprint(config, headers, sprintMap.get(task.sprint), issue.key);
      if (!addedToSprint) warnings.push(`Failed to add ${issue.key} to sprint ${task.sprint}`);
    } else if (task.sprint) warnings.push(`Sprint "${task.sprint}" not found for task "${task.title}"`);
  } else { failedIssues.push(task.title); warnings.push(`Failed to create ${task.type}: ${task.title}`); }\<close>
\<close>

definition putInSprint ::
  "remote \<Rightarrow> JiraConfig \<Rightarrow> jtask \<Rightarrow> jsval \<Rightarrow> jira_run \<Rightarrow> io \<Rightarrow> jira_run \<times> io" where
  "putInSprint env config task issue run s =
     (if present (jt_sprint task) \<and> the (jt_sprint task) \<in> dom (sprintMap run) then
        (let (addedToSprint, s1) =
               addIssueToSprint env config (mapGet (sprintMap run) (the (jt_sprint task)))
                 (keyOf issue) s
         in (if addedToSprint then run
             else run\<lparr>warnings := warnings run @ [''Failed to add '' @ String_of (keyOf issue)
                        @ '' to sprint '' @ the (jt_sprint task)]\<rparr>, s1))
      else if present (jt_sprint task) then
        (run\<lparr>warnings := warnings run @ [''Sprint '' @ quoted (the (jt_sprint task))
                 @ '' not found for task '' @ quoted (jt_title task)]\<rparr>, s)
      else (run, s))"

definition createOther ::
  "remote \<Rightarrow> platform \<Rightarrow> JiraConfig \<Rightarrow> string \<Rightarrow> jira_probe \<Rightarrow> jtask \<Rightarrow> jira_run \<Rightarrow> io \<Rightarrow>
   jira_run \<times> io" where
  "createOther env pf config projectKey p task run s =
     (let (epicKey, run1) = epicKeyOf projectKey run task;
          (issue, s1) = createIssue env pf config projectKey task (type_name (jt_type task))
                          epicKey (isTeamManaged p) (epicLinkField p) s
      in if truthy issue
         then putInSprint env config task issue (recordCreated task issue run1) s1
         else (recordFailed task (type_name (jt_type task)) run1, s1))"

fun createOthers ::
  "remote \<Rightarrow> platform \<Rightarrow> JiraConfig \<Rightarrow> string \<Rightarrow> jira_probe \<Rightarrow> jtask list \<Rightarrow> jira_run \<Rightarrow> io \<Rightarrow>
   jira_run \<times> io" where
  "createOthers env pf config projectKey p [] run s = (run, s)"
| "createOthers env pf config projectKey p (task # rest) run s =
     (let (run1, s1) = createOther env pf config projectKey p task run s
      in createOthers env pf config projectKey p rest run1 s1)"

text \<open>
  Loop 4, over the tasks that block another:
  \<^verbatim>\<open>const outwardIssueKey = issueKeyMap.get(task.title);
  let inwardIssueKey = issueKeyMap.get(task.blocks);
  if (!inwardIssueKey && task.blocks.includes('-') && task.blocks.startsWith(projectKey)) inwardIssueKey = task.blocks;
  if (outwardIssueKey && inwardIssueKey) {
    const linked = await createIssueLink(config, headers, outwardIssueKey, inwardIssueKey, "Blocks");
    if (!linked) warnings.push(`Failed to create blocking link: ${task.title} blocks ${task.blocks}`);
  } else {
    if (!outwardIssueKey) warnings.push(`Could not find issue key for task title: "${task.title}"`);
    if (!inwardIssueKey) warnings.push(`Could not find issue key for blocked task title: "${task.blocks}"`);
  }\<close>
\<close>

definition createLink ::
  "remote \<Rightarrow> JiraConfig \<Rightarrow> string \<Rightarrow> jtask \<Rightarrow> jira_run \<Rightarrow> io \<Rightarrow> jira_run \<times> io" where
  "createLink env config projectKey task run s =
     (let blocks = the (jt_blocks task);
          outwardIssueKey = mapGet (issueKeyMap run) (jt_title task);
          inwardIssueKey = resolveKey projectKey (issueKeyMap run) blocks
      in if truthy outwardIssueKey \<and> truthy inwardIssueKey then
           (let (linked, s1) = createIssueLink env config outwardIssueKey inwardIssueKey
                                 ''Blocks'' s
            in (if linked then run
                else run\<lparr>warnings := warnings run @ [''Failed to create blocking link: ''
                           @ jt_title task @ '' blocks '' @ blocks]\<rparr>, s1))
         else
           (run\<lparr>warnings := warnings run
              @ (if \<not> truthy outwardIssueKey
                 then [''Could not find issue key for task title: '' @ quoted (jt_title task)]
                 else [])
              @ (if \<not> truthy inwardIssueKey
                 then [''Could not find issue key for blocked task title: '' @ quoted blocks]
                 else [])\<rparr>, s))"

fun createLinks ::
  "remote \<Rightarrow> JiraConfig \<Rightarrow> string \<Rightarrow> jtask list \<Rightarrow> jira_run \<Rightarrow> io \<Rightarrow> jira_run \<times> io" where
  "createLinks env config projectKey [] run s = (run, s)"
| "createLinks env config projectKey (task # rest) run s =
     (let (run1, s1) = createLink env config projectKey task run s
      in createLinks env config projectKey rest run1 s1)"

definition writeJiraIssues_write ::
  "remote \<Rightarrow> platform \<Rightarrow> JiraConfig \<Rightarrow> string \<Rightarrow> jtask list \<Rightarrow> jira_probe \<Rightarrow> io \<Rightarrow>
   jira_run \<times> io" where
  "writeJiraIssues_write env pf config projectKey tasks p s =
     (let run0 = \<lparr>warnings = probeWarnings p, issueKeyMap = Map.empty, createdIssues = [],
                  failedIssues = [], sprintMap = Map.empty\<rparr>;
          epicTasks = filter (\<lambda>task. jt_type task = Epic) tasks;
          nonEpicTasks = filter (\<lambda>task. jt_type task \<noteq> Epic) tasks;
          (run1, s1) = createEpics env pf config projectKey (isTeamManaged p) epicTasks run0 s;
          (run2, s2) = (if truthy (board p)
                        then createSprints env pf config (idOf (board p)) (uniqueSprints tasks) run1 s1
                        else (run1, s1));
          (run3, s3) = createOthers env pf config projectKey p nonEpicTasks run2 s2;
          blockingTasks = filter (\<lambda>task. present (jt_blocks task)) tasks
      in createLinks env config projectKey blockingTasks run3 s3)"

text \<open>
  \<^verbatim>\<open>if (createdIssues.length === 0) {
    return {success: false, data: `No issues were created successfully. Failed issues: ${failedIssues.join(', ')}`, error: "No issues created"};
  }
  return {success: true, data: {projectKey, createdIssues,
    boardUrl: `${config.baseUrl}/jira/software/projects/${projectKey}/boards`,
    warnings: warnings.length > 0 ? warnings : undefined}};\<close>
\<close>

definition writeJiraIssues_result :: "JiraConfig \<Rightarrow> string \<Rightarrow> jira_run \<Rightarrow> jira_result" where
  "writeJiraIssues_result config projectKey run =
     (if length (createdIssues run) = 0 then
        jira_failure (''No issues were created successfully. Failed issues: ''
                      @ join '', '' (failedIssues run)) ''No issues created''
      else \<lparr>success = True,
             data = Created projectKey (createdIssues run)
                      (baseUrl config @ ''/jira/software/projects/'' @ projectKey @ ''/boards'')
                      (if length (warnings run) > 0 then Some (warnings run) else None),
             error = None\<rparr>)"

definition writeJiraIssues ::
  "remote \<Rightarrow> platform \<Rightarrow> JiraConfig \<Rightarrow> string \<Rightarrow> jtask list \<Rightarrow> io \<Rightarrow> jira_result \<times> io" where
  "writeJiraIssues env pf config projectKey tasks s =
     (case writeJiraIssues_probe env config projectKey s of
        (Inl r, s1) \<Rightarrow> (r, s1)
      | (Inr p, s1) \<Rightarrow>
          (let (run, s2) = writeJiraIssues_write env pf config projectKey tasks p s1
           in (writeJiraIssues_result config projectKey run, s2)))"

text \<open>
  jiraTool.execute for \<open>action = "write"\<close>; \<open>projectData\<close> is \<open>None\<close> when the
  caller left it out. The checks of the configuration, of the project key and of the
  tasks come first and return without any request.
  \<^verbatim>\<open>const configErrors = validateConfig(config);
  if (configErrors.length > 0) return {success: false, data: `Configuration errors: ${configErrors.join(', ')}`, error: "Invalid Jira configuration"};
  if (!isValidProjectKey(projectKey)) return {success: false, data: "Invalid project key format. ...", error: "Invalid project key format"};
  if (action === "write") {
    if (!projectData || !projectData.tasks || projectData.tasks.length === 0)
      return {success: false, data: "Project data with at least one task is required for write operations", error: "Missing project data"};
    const taskValidationErrors = validateTasks(projectData.tasks);
    if (taskValidationErrors.length > 0)
      return {success: false, data: `Task validation errors: ${taskValidationErrors.join(', ')}`, error: "Invalid task data"};
  }
  ... return await writeJiraIssues(config, projectKey, projectData!);\<close>
\<close>

definition jiraTool_execute_write ::
  "remote \<Rightarrow> platform \<Rightarrow> JiraConfig \<Rightarrow> string \<Rightarrow> jtask list option \<Rightarrow> io \<Rightarrow>
   jira_result \<times> io" where
  "jiraTool_execute_write env pf config projectKey projectData s =
     (let configErrors = validateConfig config in
      if length configErrors > 0 then
        (jira_failure (''Configuration errors: '' @ join '', '' configErrors)
           ''Invalid Jira configuration'', s)
      else if \<not> isValidProjectKey projectKey then
        (jira_failure (''Invalid project key format. Project keys should contain only ''
            @ ''uppercase letters, numbers, and underscores.'') ''Invalid project key format'', s)
      else (case projectData of
              None \<Rightarrow>
                (jira_failure ''Project data with at least one task is required for write operations''
                   ''Missing project data'', s)
            | Some tasks \<Rightarrow>
                if length tasks = 0 then
                  (jira_failure ''Project data with at least one task is required for write operations''
                     ''Missing project data'', s)
                else (let taskValidationErrors = validateTasks pf tasks in
                      if length taskValidationErrors > 0 then
                        (jira_failure (''Task validation errors: ''
                            @ join '', '' taskValidationErrors) ''Invalid task data'', s)
                      else writeJiraIssues env pf config projectKey tasks s)))"

text \<open>Sample data for the Jira tool.\<close>

definition pf0 :: platform where
  "pf0 = \<lparr>parseDate = (\<lambda>s. if s = ''2020-01-01'' then Some 1577836800000 else None),
          nowMs = 1700000000000, isoString = (\<lambda>t. ''2023-11-14T22:13:20.123Z'')\<rparr>"

definition config0 :: JiraConfig where
  "config0 = \<lparr>email = ''pm@example.com'', apiToken = ''0123456789abcdef'',
              baseUrl = ''https://example.atlassian.net''\<rparr>"

definition taskA :: jtask where
  "taskA = \<lparr>jt_title = ''A'', jt_description = ''d'', jt_type = Task, jt_assignee = None,
            jt_epic = None, jt_sprint = Some ''S1'', jt_dueDate = None, jt_blocks = None\<rparr>"

definition projectJson :: json where
  "projectJson = JObj [(''key'', JStr ''PROJ''), (''style'', JStr ''next-gen'')]"

definition boardsJson :: json where
  "boardsJson = JObj [(''values'',
     JArr [JObj [(''id'', JNum 1), (''location'', JObj [(''projectKey'', JStr ''PROJ'')])]])]"

definition sprintOnly :: remote where
  "sprintOnly = script [resp 200 [] (Some projectJson), resp 200 [] (Some boardsJson),
                        resp 201 [] (Some (JObj [(''id'', JNum 7)]))]
                  (resp 400 ''bad request'' None)"

text \<open>
  The two defects of a task list that C10 is about: the task at \<open>j\<close> repeats the title
  of an earlier task \<open>i\<close>; the task at \<open>j\<close> has the due date \<open>d\<close>, which is a valid
  date before now.
\<close>

definition duplicateAt :: "jtask list \<Rightarrow> nat \<Rightarrow> nat \<Rightarrow> bool" where
  "duplicateAt tasks i j =
     (i < j \<and> j < length tasks \<and> jt_title (tasks ! i) = jt_title (tasks ! j))"

definition pastDueAt :: "platform \<Rightarrow> jtask list \<Rightarrow> nat \<Rightarrow> string \<Rightarrow> bool" where
  "pastDueAt pf tasks j d =
     (j < length tasks \<and> jt_dueDate (tasks ! j) = Some d \<and> d \<noteq> [] \<and>
      (case parseDate pf d of None \<Rightarrow> False | Some t \<Rightarrow> t < nowMs pf))"

definition twoTasks :: "jtask list" where
  "twoTasks = [taskA, taskA\<lparr>jt_dueDate := Some ''2020-01-01''\<rparr>]"

section \<open>Trello tool\<close>

record TrelloConfig =
  apiKey :: string
  token :: string




text \<open>
  The \<open>options\<close> object as writeTrelloBoard sees it; a field is \<open>None\<close> when the
  caller did not set it.
\<close>

record trello_options =
  opt_maxRetries :: "nat option"
  opt_archiveExistingLists :: "bool option"
  opt_createWorkspaceIfNotExists :: "bool option"

definition noOptions :: trello_options where
  "noOptions = \<lparr>opt_maxRetries = None, opt_archiveExistingLists = None,
                 opt_createWorkspaceIfNotExists = None\<rparr>"




text \<open>Actions on the remote side that may throw, and their sequencing.\<close>

type_synonym 'a action = "io \<Rightarrow> (exn + 'a) \<times> io"

definition bindIO :: "'a action \<Rightarrow> ('a \<Rightarrow> 'b action) \<Rightarrow> 'b action" where
  "bindIO m f s = (case m s of (Inl e, s1) \<Rightarrow> (Inl e, s1) | (Inr a, s1) \<Rightarrow> f a s1)"

definition liftE :: "exn + 'a \<Rightarrow> 'a action" where
  "liftE r s = (r, s)"






subsection \<open>writeTrelloBoard: finding or creating the workspace and the board\<close>










subsection \<open>writeTrelloBoard: archiving the lists of the board\<close>






subsection \<open>writeTrelloBoard: labels, member, lists and cards\<close>









subsection \<open>writeTrelloBoard and the tool's write action\<close>




















text \<open>The requests of a trace, as method and URL.\<close>

definition sent :: "io \<Rightarrow> (string \<times> string) list" where
  "sent s = concat (map (\<lambda>ev. case ev of Fetch rq \<Rightarrow> [(req_method rq, req_url rq)]
                                | Sleep ms \<Rightarrow> []) (trace s))"









section \<open>Jira workflow\<close>

text \<open>
  The second workflow of trello-workflow.ts (\<open>jiraWorkflow\<close>). It reads its
  configuration from the environment:
  \<^verbatim>\<open>const JIRA_BASE_URL = process.env.JIRA_BASE_URL || "https://your-domain.atlassian.net";
  function getAuth() {
    const email = process.env.JIRA_EMAIL;
    const apiToken = process.env.JIRA_API_TOKEN;
    if (!email || !apiToken) throw new Error("JIRA_EMAIL and JIRA_API_TOKEN must be set in environment variables");
    return { email, apiToken };
  }\<close>
\<close>

record process_env =
  env_JIRA_BASE_URL :: "string option"
  env_JIRA_EMAIL :: "string option"
  env_JIRA_API_TOKEN :: "string option"

definition JIRA_BASE_URL :: "process_env \<Rightarrow> string" where
  "JIRA_BASE_URL penv =
     (case env_JIRA_BASE_URL penv of
        None \<Rightarrow> ''https://your-domain.atlassian.net''
      | Some u \<Rightarrow> if u = [] then ''https://your-domain.atlassian.net'' else u)"

definition getAuth :: "process_env \<Rightarrow> exn + string \<times> string" where
  "getAuth penv =
     (case (env_JIRA_EMAIL penv, env_JIRA_API_TOKEN penv) of
        (Some address, Some secret) \<Rightarrow>
          if address = [] \<or> secret = []
          then Inl (Error ''JIRA_EMAIL and JIRA_API_TOKEN must be set in environment variables'')
          else Inr (address, secret)
      | _ \<Rightarrow> Inl (Error ''JIRA_EMAIL and JIRA_API_TOKEN must be set in environment variables''))"

text \<open>
  \<^verbatim>\<open>async function jiraRequest(endpoint: string, method: string = 'GET', data?: any) {
    const { email, apiToken } = getAuth();
    const url = `${JIRA_BASE_URL}${endpoint}`;
    const options: RequestInit = { method, headers: {...} };
    if (data && (method === 'POST' || method === 'PUT')) options.body = JSON.stringify(data);
    const response = await fetch(url, options);
    if (!response.ok) {
      const errorText = await response.text();
      throw new Error(`Jira API error: ${response.status} ${response.statusText} - ${errorText}`);
    }
    return response.json();
  }\<close>
  One attempt, no retry: a rejected \<open>fetch\<close>, an answer outside 200..299 and a body
  that is not JSON each throw.
\<close>

definition jiraRequest ::
  "process_env \<Rightarrow> remote \<Rightarrow> string \<Rightarrow> string \<Rightarrow> jsval \<Rightarrow> jsval action" where
  "jiraRequest penv env endpoint method payload s =
     (case getAuth penv of
        Inl e \<Rightarrow> (Inl e, s)
      | Inr a \<Rightarrow>
          (case fetch env
                  \<lparr>req_method = method, req_url = JIRA_BASE_URL penv @ endpoint,
                   req_body = (if truthy payload \<and> (method = ''POST'' \<or> method = ''PUT'')
                               then payload else None)\<rparr> s of
             (Rejected e, s1) \<Rightarrow> (Inl e, s1)
           | (Responded r, s1) \<Rightarrow>
               if \<not> ok r then
                 (Inl (Error (''Jira API error: '' @ string_of_nat (status r) @ '' ''
                              @ statusText r @ '' - '' @ text_body r)), s1)
               else (case json_of r of Inl e \<Rightarrow> (Inl e, s1) | Inr j \<Rightarrow> (Inr (Some j), s1))))"

text \<open>
  \<open>v.k\<close> where \<open>v\<close> is known to be truthy, so that the read cannot throw.
\<close>

definition propOf :: "jsval \<Rightarrow> string \<Rightarrow> jsval" where
  "propOf v k = (case getprop v k of Inl e \<Rightarrow> None | Inr x \<Rightarrow> x)"

text \<open>The callback \<open>(type: any) => type.name === n\<close>.\<close>

definition nameIs :: "string \<Rightarrow> json \<Rightarrow> exn + bool" where
  "nameIs n t = andThen (getprop (Some t) ''name'') (\<lambda>v. Inr (eqStr v n))"

definition createMetaEndpoint :: "string \<Rightarrow> string" where
  "createMetaEndpoint projectKey =
     ''/rest/api/3/issue/createmeta?projectKeys='' @ projectKey
     @ ''&expand=projects.issuetypes.fields''"

subsection \<open>validateTeamManagedProject and the step validateProject\<close>

text \<open>
  The result \<open>{isValid, project?, errorMessage?}\<close>. The three error messages are long
  texts for the reader; the model keeps which of them it is, and the values the text
  is built from: the project key, and \<open>projectTypeKey\<close>, \<open>style\<close>, \<open>simplified\<close>
  of a company-managed project, or the caught error.
\<close>

datatype invalid =
    CompanyManaged string jsval jsval jsval
  | NoEpicType string
  | NotAccessible string exn

record validation =
  v_isValid :: bool
  v_project :: jsval
  v_errorMessage :: "invalid option"

text \<open>
  The inner \<open>try\<close> block, after its request:
  \<^verbatim>\<open>let hasEpicType = false;
  let supportsParentField = false;
  if (createMeta.projects && createMeta.projects.length > 0) {
    const projectMeta = createMeta.projects[0];
    const epicType = projectMeta.issuetypes.find((type: any) => type.name === 'Epic');
    hasEpicType = !!epicType;
    const storyType = projectMeta.issuetypes.find((type: any) => type.name === 'Story');
    if (storyType && storyType.fields) supportsParentField = !!storyType.fields.parent;
  }\<close>
  \<open>supportsParentField\<close> is only logged; reading it cannot throw, since
  \<open>storyType\<close> and \<open>storyType.fields\<close> are truthy where they are read.
\<close>

definition hasEpicType :: "jsval \<Rightarrow> exn + bool" where
  "hasEpicType createMeta =
     andThen (getprop createMeta ''projects'') (\<lambda>projects.
       if \<not> (truthy projects \<and> positive (propOf projects ''length'')) then Inr False
       else andThen (first_element projects) (\<lambda>projectMeta.
            andThen (getprop projectMeta ''issuetypes'') (\<lambda>issuetypes.
            andThen (find_js issuetypes (nameIs ''Epic'')) (\<lambda>epicType.
            andThen (getprop projectMeta ''issuetypes'') (\<lambda>issuetypes2.
            andThen (find_js issuetypes2 (nameIs ''Story'')) (\<lambda>storyType.
              Inr (truthy epicType)))))))"

text \<open>
  \<^verbatim>\<open>async function validateTeamManagedProject(projectKey: string) {
    try {
      const project = await jiraRequest(`/rest/api/3/project/${projectKey}`);
      const projectTypeKey = project.projectTypeKey;
      const style = project.style;
      const simplified = project.simplified;
      const isTeamManaged = style === "next-gen";
      if (!isTeamManaged) return { isValid: false, errorMessage: `... company-managed ...` };
      try {
        const createMeta = await jiraRequest(`/rest/api/3/issue/createmeta?projectKeys=${projectKey}&expand=projects.issuetypes.fields`);
        ...
        if (!hasEpicType) return { isValid: false, errorMessage: `... does not have Epic issue type available ...` };
      } catch (metaError) {
        console.warn(`Could not check project capabilities: ${metaError}`);
        // Don't fail validation just because we can't check capabilities
      }
      return { isValid: true, project };
    } catch (error) {
      return { isValid: false, errorMessage: `... not found or not accessible ... Error details: ${error}` };
    }
  }\<close>
\<close>

definition checkEpicType ::
  "process_env \<Rightarrow> remote \<Rightarrow> string \<Rightarrow> jsval \<Rightarrow> io \<Rightarrow> validation \<times> io" where
  "checkEpicType penv env projectKey project s =
     (case bindIO (jiraRequest penv env (createMetaEndpoint projectKey) ''GET'' None)
             (\<lambda>createMeta. liftE (hasEpicType createMeta)) s of
        (Inr False, s1) \<Rightarrow>
          (\<lparr>v_isValid = False, v_project = None, v_errorMessage = Some (NoEpicType projectKey)\<rparr>, s1)
      | (Inr True, s1) \<Rightarrow>
          (\<lparr>v_isValid = True, v_project = project, v_errorMessage = None\<rparr>, s1)
      | (Inl metaError, s1) \<Rightarrow>
          (\<lparr>v_isValid = True, v_project = project, v_errorMessage = None\<rparr>, s1))"

definition validateTeamManagedProject ::
  "process_env \<Rightarrow> remote \<Rightarrow> string \<Rightarrow> io \<Rightarrow> validation \<times> io" where
  "validateTeamManagedProject penv env projectKey s =
     (case bindIO (jiraRequest penv env (''/rest/api/3/project/'' @ projectKey) ''GET'' None)
             (\<lambda>project.
           bindIO (liftE (getprop project ''projectTypeKey'')) (\<lambda>projectTypeKey.
           bindIO (liftE (getprop project ''style'')) (\<lambda>style.
           bindIO (liftE (getprop project ''simplified'')) (\<lambda>simplified.
             if \<not> eqStr style ''next-gen'' then
               liftE (Inr \<lparr>v_isValid = False, v_project = None,
                            v_errorMessage = Some (CompanyManaged projectKey projectTypeKey style
                                                     simplified)\<rparr>)
             else (\<lambda>s1. case checkEpicType penv env projectKey project s1 of
                           (v, s2) \<Rightarrow> (Inr v, s2)))))) s of
        (Inl err, s1) \<Rightarrow>
          (\<lparr>v_isValid = False, v_project = None,
            v_errorMessage = Some (NotAccessible projectKey err)\<rparr>, s1)
      | (Inr v, s1) \<Rightarrow> (v, s1))"

text \<open>
  The input of the workflow (\<open>workflowInputSchema\<close>), and the step validateProject:
  \<^verbatim>\<open>if (!inputData) throw new Error("Input data not found");
  const validation = await validateTeamManagedProject(inputData.targetProjectKey);
  if (!validation.isValid) throw new Error(validation.errorMessage);
  return { project: validation.project, originalInput: inputData };\<close>
  A step that throws ends the run of the workflow: the steps chained after it with
  \<open>.then\<close> are not executed. The error thrown for an invalid project is kept as
  the reason it carries.
\<close>

record workflow_input =
  taskDescription :: string
  sourceProjectKey :: "string option"
  targetProjectKey :: string
  assigneeEmail :: "string option"
  in_sprintName :: "string option"

datatype step_error = Thrown exn | ProjectInvalid "invalid option"

definition validateProject ::
  "process_env \<Rightarrow> remote \<Rightarrow> workflow_input option \<Rightarrow> io \<Rightarrow>
   (step_error + jsval \<times> workflow_input) \<times> io" where
  "validateProject penv env inputData s =
     (case inputData of
        None \<Rightarrow> (Inl (Thrown (Error ''Input data not found'')), s)
      | Some input \<Rightarrow>
          (case validateTeamManagedProject penv env (targetProjectKey input) s of
             (validation, s1) \<Rightarrow>
               if \<not> v_isValid validation
               then (Inl (ProjectInvalid (v_errorMessage validation)), s1)
               else (Inr (v_project validation, input), s1)))"

subsection \<open>createJiraIssues: the capabilities of the project\<close>

text \<open>
  \<^verbatim>\<open>let projectCapabilities = { supportsPriority: false, supportsSubtasks: false,
    supportsStoryPoints: false, priorityFieldId: null, storyPointsFieldId: null };
  try {
    const createMeta = await jiraRequest(`/rest/api/3/issue/createmeta?projectKeys=${originalInput.targetProjectKey}&expand=projects.issuetypes.fields`);
    if (createMeta.projects && createMeta.projects.length > 0) {
      const projectMeta = createMeta.projects[0];
      const storyType = projectMeta.issuetypes.find((type: any) => type.name === 'Story');
      if (storyType && storyType.fields) {
        if (storyType.fields.priority) {
          projectCapabilities.supportsPriority = true;
          projectCapabilities.priorityFieldId = 'priority';
        }
        const storyPointFieldIds = ['customfield_10016', 'customfield_10002', 'customfield_10026'];
        for (const fieldId of storyPointFieldIds) {
          if (storyType.fields[fieldId]) {
            projectCapabilities.supportsStoryPoints = true;
            projectCapabilities.storyPointsFieldId = fieldId;
            break;
          }
        }
      }
      const subtaskType = projectMeta.issuetypes.find((type: any) => type.name === 'Sub-task');
      if (subtaskType) projectCapabilities.supportsSubtasks = true;
    }
  } catch (error) { console.warn('Could not check project capabilities:', error); }\<close>
  The object is updated in place, so an error leaves it as it is at that moment:
  \<open>tryCaps m caps f\<close> continues with \<open>f\<close> on the value of \<open>m\<close>, and ends with
  \<open>caps\<close> when \<open>m\<close> throws.
\<close>

record capabilities =
  supportsPriority :: bool
  supportsSubtasks :: bool
  supportsStoryPoints :: bool
  priorityFieldId :: "string option"
  storyPointsFieldId :: "string option"

definition noCapabilities :: capabilities where
  "noCapabilities = \<lparr>supportsPriority = False, supportsSubtasks = False,
                      supportsStoryPoints = False, priorityFieldId = None,
                      storyPointsFieldId = None\<rparr>"

definition tryCaps :: "exn + 'a \<Rightarrow> capabilities \<Rightarrow> ('a \<Rightarrow> capabilities) \<Rightarrow> capabilities" where
  "tryCaps m caps f = (case m of Inl e \<Rightarrow> caps | Inr a \<Rightarrow> f a)"

definition storyPointFieldIds :: "string list" where
  "storyPointFieldIds = [''customfield_10016'', ''customfield_10002'', ''customfield_10026'']"

definition withPriority :: "jsval \<Rightarrow> capabilities \<Rightarrow> capabilities" where
  "withPriority fs caps =
     (if truthy (propOf fs ''priority'')
      then caps\<lparr>supportsPriority := True, priorityFieldId := Some ''priority''\<rparr> else caps)"

fun withStoryPoints :: "jsval \<Rightarrow> string list \<Rightarrow> capabilities \<Rightarrow> capabilities" where
  "withStoryPoints fs [] caps = caps"
| "withStoryPoints fs (fieldId # rest) caps =
     (if truthy (propOf fs fieldId)
      then caps\<lparr>supportsStoryPoints := True, storyPointsFieldId := Some fieldId\<rparr>
      else withStoryPoints fs rest caps)"

definition capabilitiesOf :: "jsval \<Rightarrow> capabilities" where
  "capabilitiesOf createMeta =
     tryCaps (getprop createMeta ''projects'') noCapabilities (\<lambda>projects.
       if \<not> (truthy projects \<and> positive (propOf projects ''length'')) then noCapabilities
       else
         tryCaps (first_element projects) noCapabilities (\<lambda>projectMeta.
         tryCaps (getprop projectMeta ''issuetypes'') noCapabilities (\<lambda>issuetypes.
         tryCaps (find_js issuetypes (nameIs ''Story'')) noCapabilities (\<lambda>storyType.
           let caps = (if truthy storyType \<and> truthy (propOf storyType ''fields'')
                       then withStoryPoints (propOf storyType ''fields'') storyPointFieldIds
                              (withPriority (propOf storyType ''fields'') noCapabilities)
                       else noCapabilities)
           in tryCaps (getprop projectMeta ''issuetypes'') caps (\<lambda>issuetypes2.
              tryCaps (find_js issuetypes2 (nameIs ''Sub-task'')) caps (\<lambda>subtaskType.
                if truthy subtaskType then caps\<lparr>supportsSubtasks := True\<rparr> else caps))))))"

definition probeCapabilities ::
  "process_env \<Rightarrow> remote \<Rightarrow> string \<Rightarrow> io \<Rightarrow> capabilities \<times> io" where
  "probeCapabilities penv env projectKey s =
     (case jiraRequest penv env (createMetaEndpoint projectKey) ''GET'' None s of
        (Inl e, s1) \<Rightarrow> (noCapabilities, s1)
      | (Inr createMeta, s1) \<Rightarrow> (capabilitiesOf createMeta, s1))"

subsection \<open>createJiraIssues: assignee, epic, stories, subtasks, sprint\<close>

text \<open>
  The plan the step receives, as its \<open>inputSchema\<close> (\<open>enhancedTaskSchema\<close>) types
  it; numbers are modelled for integral values.
\<close>

record plan_subtask =
  st_title :: string
  st_description :: string
  st_estimateHours :: int

record plan_story =
  s_title :: string
  s_description :: string
  s_acceptanceCriteria :: "string list"
  s_storyPoints :: int
  s_priority :: string
  s_labels :: "string list"
  s_subtasks :: "plan_subtask list"

record jira_plan =
  p_epicTitle :: string
  p_epicDescription :: string
  p_sprintName :: string
  p_sprintGoal :: string
  p_sprintDurationDays :: int
  p_stories :: "plan_story list"

text \<open>
  \<^verbatim>\<open>async function getAssigneeAccountId(email: string): Promise<string | null> {
    try {
      const users = await jiraRequest(`/rest/api/3/user/search?query=${email}`);
      return users.length > 0 ? users[0].accountId : null;
    } catch (error) { console.warn(...); return null; }
  }\<close>
\<close>

definition getAssigneeAccountId :: "process_env \<Rightarrow> remote \<Rightarrow> string \<Rightarrow> io \<Rightarrow> jsval \<times> io" where
  "getAssigneeAccountId penv env address s =
     (case bindIO (jiraRequest penv env (''/rest/api/3/user/search?query='' @ address) ''GET'' None)
             (\<lambda>users. liftE (andThen (getprop users ''length'') (\<lambda>len.
                if positive len
                then andThen (first_element users) (\<lambda>user. getprop user ''accountId'')
                else Inr (Some JNull)))) s of
        (Inl e, s1) \<Rightarrow> (Some JNull, s1)
      | (Inr accountId, s1) \<Rightarrow> (accountId, s1))"

text \<open>
  \<^verbatim>\<open>async function getBoardId(projectKey: string): Promise<number | null> {
    try {
      const boards = await jiraRequest('/rest/agile/1.0/board');
      const board = boards.values.find((b: any) => b.location?.projectKey === projectKey);
      return board ? board.id : null;
    } catch (error) { console.warn(...); return null; }
  }\<close>
  On an array, \<open>values\<close> is the iterator method of the prototype, which has no
  \<open>find\<close>.
\<close>

definition getBoardId :: "process_env \<Rightarrow> remote \<Rightarrow> string \<Rightarrow> io \<Rightarrow> jsval \<times> io" where
  "getBoardId penv env projectKey s =
     (case bindIO (jiraRequest penv env ''/rest/agile/1.0/board'' ''GET'' None)
             (\<lambda>boards. liftE
                (if isArray boards then Inl (TypeError_call ''find'')
                 else andThen (getprop boards ''values'') (\<lambda>vals.
                      andThen (find_js vals (boardOfProject projectKey)) (\<lambda>b.
                        if truthy b then getprop b ''id'' else Inr (Some JNull))))) s of
        (Inl e, s1) \<Rightarrow> (Some JNull, s1)
      | (Inr boardId, s1) \<Rightarrow> (boardId, s1))"

text \<open>
  The payloads. \<open>...(assigneeAccountId && { assignee: { id: assigneeAccountId } })\<close>
  adds the property for a truthy account id only. The bullet in front of an acceptance
  criterion is the character U+2022, written here as the bytes of its UTF-8 form.
\<close>

definition assigneeField :: "jsval \<Rightarrow> (string \<times> jsval) list" where
  "assigneeField assigneeAccountId =
     (if truthy assigneeAccountId then [(''assignee'', Some (obj [(''id'', assigneeAccountId)]))]
      else [])"

definition epicPayload :: "string \<Rightarrow> jsval \<Rightarrow> jira_plan \<Rightarrow> json" where
  "epicPayload projectKey assigneeAccountId enhancedTasks =
     obj [(''fields'', Some (obj (
       [(''project'', Some (obj [(''key'', Some (JStr projectKey))])),
        (''summary'', Some (JStr (p_epicTitle enhancedTasks))),
        (''description'', Some (adf_doc [adf_paragraph (p_epicDescription enhancedTasks)])),
        (''issuetype'', Some (obj [(''name'', Some (JStr ''Epic''))]))]
       @ assigneeField assigneeAccountId)))]"

definition bullet :: string where
  "bullet = [CHR 0xE2, CHR 0x80, CHR 0xA2]"

text \<open>
  \<^verbatim>\<open>const storyFields: any = { project: {...}, summary: story.title, description: {...},
    issuetype: { name: "Story" }, labels: story.labels, parent: { key: epicKey },
    ...(assigneeAccountId && { assignee: { id: assigneeAccountId } }) };
  if (projectCapabilities.supportsPriority) {
    try { storyFields.priority = { name: story.priority === "High" ? "High" : story.priority === "Low" ? "Low" : "Medium" }; } catch (error) {...}
  }
  if (projectCapabilities.supportsStoryPoints && projectCapabilities.storyPointsFieldId) {
    try { storyFields[projectCapabilities.storyPointsFieldId] = story.storyPoints; } catch (error) {...}
  }\<close>
\<close>

definition storyFields ::
  "capabilities \<Rightarrow> string \<Rightarrow> jsval \<Rightarrow> jsval \<Rightarrow> plan_story \<Rightarrow> (string \<times> jsval) list" where
  "storyFields caps projectKey assigneeAccountId epicKey story =
     [(''project'', Some (obj [(''key'', Some (JStr projectKey))])),
      (''summary'', Some (JStr (s_title story))),
      (''description'', Some (adf_doc
         ([adf_paragraph (s_description story),
           adf_paragraph ([CHR 0x0A, CHR 0x0A] @ ''Acceptance Criteria:'')]
          @ map (\<lambda>criteria. adf_paragraph (bullet @ '' '' @ criteria))
              (s_acceptanceCriteria story)))),
      (''issuetype'', Some (obj [(''name'', Some (JStr ''Story''))])),
      (''labels'', Some (JArr (map JStr (s_labels story)))),
      (''parent'', Some (obj [(''key'', epicKey)]))]
     @ assigneeField assigneeAccountId
     @ (if supportsPriority caps
        then [(''priority'', Some (obj [(''name'', Some (JStr
                (if s_priority story = ''High'' then ''High''
                 else if s_priority story = ''Low'' then ''Low'' else ''Medium'')))]))]
        else [])
     @ (case storyPointsFieldId caps of
          Some fieldId \<Rightarrow>
            if supportsStoryPoints caps \<and> fieldId \<noteq> []
            then [(fieldId, Some (JNum (s_storyPoints story)))] else []
        | None \<Rightarrow> [])"

definition subtaskPayload :: "string \<Rightarrow> jsval \<Rightarrow> jsval \<Rightarrow> plan_subtask \<Rightarrow> json" where
  "subtaskPayload projectKey assigneeAccountId storyKey subtask =
     obj [(''fields'', Some (obj (
       [(''project'', Some (obj [(''key'', Some (JStr projectKey))])),
        (''summary'', Some (JStr (st_title subtask))),
        (''description'', Some (adf_doc [adf_paragraph (st_description subtask)])),
        (''issuetype'', Some (obj [(''name'', Some (JStr ''Sub-task''))])),
        (''parent'', Some (obj [(''key'', storyKey)]))]
       @ assigneeField assigneeAccountId
       @ [(''timetracking'', Some (obj [(''originalEstimate'',
             Some (JStr (string_of_int (st_estimateHours subtask) @ ''h'')))]))])))]"

text \<open>
  The subtasks of a story; the keys of the created issues are appended to
  \<open>createdIssues\<close>. No request of these loops is inside a \<open>try\<close>: a failed one ends
  the step with its error.
  \<^verbatim>\<open>const subtaskResponse = await jiraRequest("/rest/api/3/issue", "POST", subtaskPayload);
  createdIssues.push(subtaskResponse.key);
  subtasksCreated++;\<close>
\<close>

fun createSubtasks ::
  "process_env \<Rightarrow> remote \<Rightarrow> string \<Rightarrow> jsval \<Rightarrow> jsval \<Rightarrow> plan_subtask list \<Rightarrow> jsval list \<Rightarrow>
   (jsval list) action" where
  "createSubtasks penv env projectKey assigneeAccountId storyKey [] created s = (Inr created, s)"
| "createSubtasks penv env projectKey assigneeAccountId storyKey (subtask # rest) created s =
     (case bindIO (jiraRequest penv env ''/rest/api/3/issue'' ''POST''
                     (Some (subtaskPayload projectKey assigneeAccountId storyKey subtask)))
             (\<lambda>subtaskResponse. liftE (getprop subtaskResponse ''key'')) s of
        (Inl e, s1) \<Rightarrow> (Inl e, s1)
      | (Inr k, s1) \<Rightarrow>
          createSubtasks penv env projectKey assigneeAccountId storyKey rest (created @ [k]) s1)"

text \<open>
  The stories:
  \<^verbatim>\<open>for (const story of enhancedTasks.stories) {
    ...storyFields...
    const storyResponse = await jiraRequest("/rest/api/3/issue", "POST", { fields: storyFields });
    const storyKey = storyResponse.key;
    storyKeys.push(storyKey);
    createdIssues.push(storyKey);
    storiesCreated++;
    if (projectCapabilities.supportsSubtasks) {
      for (const subtask of story.subtasks) { ... }
    }
  }\<close>
  The state of the loop is the pair of \<open>storyKeys\<close> and \<open>createdIssues\<close>.
\<close>

fun createStories ::
  "process_env \<Rightarrow> remote \<Rightarrow> capabilities \<Rightarrow> string \<Rightarrow> jsval \<Rightarrow> jsval \<Rightarrow> plan_story list \<Rightarrow>
   jsval list \<times> jsval list \<Rightarrow> (jsval list \<times> jsval list) action" where
  "createStories penv env caps projectKey assigneeAccountId epicKey [] acc s = (Inr acc, s)"
| "createStories penv env caps projectKey assigneeAccountId epicKey (story # rest) acc s =
     (case bindIO (jiraRequest penv env ''/rest/api/3/issue'' ''POST''
                     (Some (obj [(''fields'',
                        Some (obj (storyFields caps projectKey assigneeAccountId epicKey story)))])))
             (\<lambda>storyResponse. liftE (getprop storyResponse ''key'')) s of
        (Inl e, s1) \<Rightarrow> (Inl e, s1)
      | (Inr storyKey, s1) \<Rightarrow>
          (case (if supportsSubtasks caps
                 then createSubtasks penv env projectKey assigneeAccountId storyKey
                        (s_subtasks story) (snd acc @ [storyKey]) s1
                 else (Inr (snd acc @ [storyKey]), s1)) of
             (Inl e, s2) \<Rightarrow> (Inl e, s2)
           | (Inr created, s2) \<Rightarrow>
               createStories penv env caps projectKey assigneeAccountId epicKey rest
                 (fst acc @ [storyKey], created) s2))"

text \<open>
  The sprint. The result is \<open>sprintUrl\<close> and the warnings pushed here.
  \<^verbatim>\<open>const boardId = await getBoardId(originalInput.targetProjectKey);
  let sprintUrl = "";
  if (boardId) {
    try {
      const now = new Date();
      const endDate = new Date(now.getTime() + enhancedTasks.sprintDurationDays * 24 * 60 * 60 * 1000);
      const sprintPayload = { name: enhancedTasks.sprintName, originBoardId: boardId,
        startDate: now.toISOString(), endDate: endDate.toISOString(), goal: enhancedTasks.sprintGoal };
      const sprintResponse = await jiraRequest("/rest/agile/1.0/sprint", "POST", sprintPayload);
      const sprintId = sprintResponse.id;
      if (sprintId) {
        await jiraRequest(`/rest/agile/1.0/sprint/${sprintId}/issue`, "POST", { issues: storyKeys });
        sprintUrl = `${JIRA_BASE_URL}/secure/RapidBoard.jspa?rapidView=${boardId}&sprint=${sprintId}`;
      }
    } catch (sprintError) { warnings.push("Sprint creation failed - you may need to create it manually"); }
  } else { warnings.push("No board found for sprint creation"); }\<close>
\<close>

definition sprintPayload :: "platform \<Rightarrow> jira_plan \<Rightarrow> jsval \<Rightarrow> exn + json" where
  "sprintPayload pf enhancedTasks boardId =
     andThen (toISOString (TimeClip (nowMs pf + p_sprintDurationDays enhancedTasks * 24 * 60 * 60 * 1000)))
       (\<lambda>endDate. Inr (obj [(''name'', Some (JStr (p_sprintName enhancedTasks))),
                             (''originBoardId'', boardId),
                             (''startDate'', Some (JStr (isoString pf (nowMs pf)))),
                             (''endDate'', Some (JStr (isoString pf endDate))),
                             (''goal'', Some (JStr (p_sprintGoal enhancedTasks)))]))"

definition createSprintOfPlan ::
  "process_env \<Rightarrow> remote \<Rightarrow> platform \<Rightarrow> jira_plan \<Rightarrow> jsval \<Rightarrow> jsval list \<Rightarrow> io \<Rightarrow>
   (string \<times> string list) \<times> io" where
  "createSprintOfPlan penv env pf enhancedTasks boardId storyKeys s =
     (if truthy boardId then
        (case bindIO (liftE (sprintPayload pf enhancedTasks boardId)) (\<lambda>payload.
              bindIO (jiraRequest penv env ''/rest/agile/1.0/sprint'' ''POST'' (Some payload))
                (\<lambda>sprintResponse.
              bindIO (liftE (getprop sprintResponse ''id'')) (\<lambda>sprintId.
                if truthy sprintId then
                  bindIO (jiraRequest penv env
                            (''/rest/agile/1.0/sprint/'' @ String_of sprintId @ ''/issue'') ''POST''
                            (Some (obj [(''issues'',
                               Some (JArr (map (\<lambda>k. case k of None \<Rightarrow> JNull | Some j \<Rightarrow> j)
                                             storyKeys)))])))
                    (\<lambda>added. liftE (Inr (JIRA_BASE_URL penv @ ''/secure/RapidBoard.jspa?rapidView=''
                                          @ String_of boardId @ ''&sprint='' @ String_of sprintId)))
                else liftE (Inr [])))) s of
           (Inl sprintError, s1) \<Rightarrow>
             (([], [''Sprint creation failed - you may need to create it manually'']), s1)
         | (Inr sprintUrl, s1) \<Rightarrow> ((sprintUrl, []), s1))
      else (([], [''No board found for sprint creation'']), s))"

text \<open>
  \<^verbatim>\<open>if (!projectCapabilities.supportsPriority) warnings.push("Priority field is not configured in your project");
  if (!projectCapabilities.supportsSubtasks) warnings.push("Sub-task issue type is not available in your project");
  if (!projectCapabilities.supportsStoryPoints) warnings.push("Story points field is not configured in your project");\<close>
\<close>

definition capabilityWarnings :: "capabilities \<Rightarrow> string list" where
  "capabilityWarnings caps =
     (if \<not> supportsPriority caps then [''Priority field is not configured in your project'']
      else [])
     @ (if \<not> supportsSubtasks caps
        then [''Sub-task issue type is not available in your project''] else [])
     @ (if \<not> supportsStoryPoints caps
        then [''Story points field is not configured in your project''] else [])"

text \<open>
  The step. Its result is \<open>{epicUrl, sprintUrl, summary, createdIssues, warnings}\<close>;
  \<open>summary\<close>, a text for the reader built from the counters and the warnings, is
  left out. \<open>createJiraIssues_write\<close> is the step from the creation of the epic on,
  for given capabilities and assignee.
\<close>

record step_result =
  r_epicUrl :: string
  r_sprintUrl :: string
  r_createdIssues :: "jsval list"
  r_warnings :: "string list"

definition createJiraIssues_write ::
  "process_env \<Rightarrow> remote \<Rightarrow> platform \<Rightarrow> capabilities \<Rightarrow> jsval \<Rightarrow> jira_plan \<Rightarrow> workflow_input \<Rightarrow>
   step_result action" where
  "createJiraIssues_write penv env pf caps assigneeAccountId enhancedTasks originalInput =
     bindIO (jiraRequest penv env ''/rest/api/3/issue'' ''POST''
               (Some (epicPayload (targetProjectKey originalInput) assigneeAccountId enhancedTasks)))
       (\<lambda>epicResponse.
     bindIO (liftE (getprop epicResponse ''key'')) (\<lambda>epicKey.
     bindIO (createStories penv env caps (targetProjectKey originalInput) assigneeAccountId epicKey
               (p_stories enhancedTasks) ([], [epicKey])) (\<lambda>keys s.
       case getBoardId penv env (targetProjectKey originalInput) s of
         (boardId, s1) \<Rightarrow>
           (case createSprintOfPlan penv env pf enhancedTasks boardId (fst keys) s1 of
              ((sprintUrl, ws), s2) \<Rightarrow>
                (Inr \<lparr>r_epicUrl = JIRA_BASE_URL penv @ ''/browse/'' @ String_of epicKey,
                      r_sprintUrl = sprintUrl, r_createdIssues = snd keys,
                      r_warnings = ws @ capabilityWarnings caps\<rparr>, s2)))))"

definition createJiraIssues ::
  "process_env \<Rightarrow> remote \<Rightarrow> platform \<Rightarrow> (jira_plan \<times> jsval \<times> workflow_input) option \<Rightarrow>
   step_result action" where
  "createJiraIssues penv env pf inputData s =
     (case inputData of
        None \<Rightarrow> (Inl (Error ''Input data not found''), s)
      | Some (enhancedTasks, project, originalInput) \<Rightarrow>
          (case probeCapabilities penv env (targetProjectKey originalInput) s of
             (caps, s1) \<Rightarrow>
               (case (case assigneeEmail originalInput of
                        None \<Rightarrow> (Some JNull, s1)
                      | Some address \<Rightarrow>
                          if address = [] then (Some JNull, s1)
                          else getAssigneeAccountId penv env address s1) of
                  (assigneeAccountId, s2) \<Rightarrow>
                    createJiraIssues_write penv env pf caps assigneeAccountId enhancedTasks
                      originalInput s2)))"

text \<open>Sample data for the Jira workflow.\<close>

definition penv0 :: process_env where
  "penv0 = \<lparr>env_JIRA_BASE_URL = Some ''https://j.example'', env_JIRA_EMAIL = Some ''pm@example.com'',
            env_JIRA_API_TOKEN = Some ''secret''\<rparr>"

definition input0 :: workflow_input where
  "input0 = \<lparr>taskDescription = ''Build the site'', sourceProjectKey = None,
             targetProjectKey = ''PROJ'', assigneeEmail = None, in_sprintName = None\<rparr>"

definition story0 :: plan_story where
  "story0 = \<lparr>s_title = ''Login'', s_description = ''Users can log in'',
             s_acceptanceCriteria = [''It works''], s_storyPoints = 3, s_priority = ''High'',
             s_labels = [''frontend''],
             s_subtasks = [\<lparr>st_title = ''Form'', st_description = ''The form'',
                            st_estimateHours = 4\<rparr>]\<rparr>"

definition plan0 :: jira_plan where
  "plan0 = \<lparr>p_epicTitle = ''Site'', p_epicDescription = ''The site'', p_sprintName = ''Sprint 1'',
            p_sprintGoal = ''Ship'', p_sprintDurationDays = 14, p_stories = [story0]\<rparr>"

definition nextGenProject :: json where
  "nextGenProject = JObj [(''key'', JStr ''PROJ''), (''style'', JStr ''next-gen'')]"

text \<open>
  The project is team-managed; its metadata lists the issue types Story and
  Sub-task, and no Epic.
\<close>

definition metaWithoutEpic :: json where
  "metaWithoutEpic =
     JObj [(''projects'', JArr [JObj [(''issuetypes'',
        JArr [JObj [(''name'', JStr ''Story''),
                    (''fields'', JObj [(''priority'', JObj []), (''customfield_10016'', JObj [])])],
              JObj [(''name'', JStr ''Sub-task'')]])]])]"

definition epicMissing :: remote where
  "epicMissing = script [resp 200 [] (Some nextGenProject), resp 200 [] (Some metaWithoutEpic)]
                   (resp 200 [] (Some (JObj [])))"

text \<open>
  The project is team-managed; the request for its metadata is answered 500, every
  later request with an issue key.
\<close>

definition metaUnavailable :: remote where
  "metaUnavailable = script [resp 200 [] (Some nextGenProject), resp 500 ''server error'' None]
                       (resp 200 [] (Some (JObj [(''key'', JStr ''PROJ-1'')])))"

text \<open>The same for the step createJiraIssues alone, whose first request is the probe.\<close>

definition probeRejected :: remote where
  "probeRejected = script [resp 500 ''server error'' None]
                     (resp 200 [] (Some (JObj [(''key'', JStr ''PROJ-1'')])))"

text \<open>
  What the step createJiraIssues returns when the probe is answered 500 and every
  later request with the issue key \<open>PROJ-1\<close>.
\<close>

definition resultOfProbeRejected :: step_result where
  "resultOfProbeRejected =
     \<lparr>r_epicUrl = ''https://j.example/browse/PROJ-1'', r_sprintUrl = [],
      r_createdIssues = [Some (JStr ''PROJ-1''), Some (JStr ''PROJ-1'')],
      r_warnings = [''No board found for sprint creation'',
                    ''Priority field is not configured in your project'',
                    ''Sub-task issue type is not available in your project'',
                    ''Story points field is not configured in your project'']\<rparr>"

section \<open>Properties\<close>

subsection \<open>Due offsets\<close>




subsection \<open>Length limits of titles and descriptions\<close>

text \<open>
  C5, as stated, fails: a Jira task whose title has 256 characters is not truncated but
  rejected by the input schema, for its length alone; so is a Trello card whose
  description has 16385 characters.
\<close>

theorem C5_oversized_counterexample:
  "jiraTaskSchema (\<lambda>a. True) longTitleTask = [''Task title too long''] \<and>
   trelloCardSchema (\<lambda>s. None) longDescriptionCard = [too_big ''description'']"
  by (simp add: jiraTaskSchema_def trelloCardSchema_def longTitleTask_def longDescriptionCard_def)

text \<open>
  C5, amended: a work item whose title or description exceeds the tool's limit (Jira:
  255 and 32767 characters; Trello: 16384 each) is rejected by the tool's input schema
  with an issue naming the field; it is not truncated.
\<close>

theorem C5_oversized_rejected:
  "(255 < length (jt_title t) \<longrightarrow> ''Task title too long'' \<in> set (jiraTaskSchema isEmail t)) \<and>
   (32767 < length (jt_description t) \<longrightarrow>
      ''Description too long'' \<in> set (jiraTaskSchema isEmail t)) \<and>
   (16384 < length (tc_title c) \<longrightarrow> too_big ''title'' \<in> set (trelloCardSchema Date_parse c)) \<and>
   (16384 < length (tc_description c) \<longrightarrow>
      too_big ''description'' \<in> set (trelloCardSchema Date_parse c))"
  by (simp add: jiraTaskSchema_def trelloCardSchema_def)

theorem C5_oversized_rejected_witness:
  "255 < length (jt_title longTitleTask) \<and>
   ''Task title too long'' \<in> set (jiraTaskSchema (\<lambda>a. True) longTitleTask) \<and>
   16384 < length (tc_description longDescriptionCard) \<and>
   too_big ''description'' \<in> set (trelloCardSchema (\<lambda>s. None) longDescriptionCard)"
  using C5_oversized_rejected [of longTitleTask "\<lambda>a. True" longDescriptionCard "\<lambda>s. None"]
  by (simp add: longTitleTask_def longDescriptionCard_def)

subsection \<open>Cleaning and decoding the generator's answer\<close>

























subsection \<open>Rate limiting and retries\<close>

declare makeJiraRequest_from.simps [simp del] makeApiCall_from.simps [simp del]
  string_of_nat.simps [simp del]


















text \<open>
  C2 on the failing input: makeApiCall, answered 500 on the first attempt, does not
  fail; its own API error is caught by the catch block meant for network errors, it
  sleeps 1000 ms and sends the request again. makeJiraRequest hands the same response
  back after one attempt.
\<close>

theorem C2_rejected_response_is_retried:
  "makeApiCall (script [resp 500 ''boom'' None] (Responded okResponse)) getMe 3 io0 =
     (Inr (Some (JObj [])),
      \<lparr>trace = [Fetch getMe, Sleep (Some 1000), Fetch getMe], fetches = 2\<rparr>) \<and>
   makeJiraRequest (script [resp 500 ''boom'' None] (Responded okResponse)) getMe io0 =
     (Inr \<lparr>status = 500, statusText = [], retryAfter = None, text_body = ''boom'', json_body = None\<rparr>,
      \<lparr>trace = [Fetch getMe], fetches = 1\<rparr>)"
  by (simp add: makeApiCall_def makeApiCall_from.simps makeJiraRequest_def
      makeJiraRequest_from.simps script_def resp_def fetch_def sleep_def io0_def
      okResponse_def ok_def)

subsection \<open>Validation of the task list by the Jira tool\<close>

lemma duplicate_reported:
  assumes "j < length tasks"
    and "jt_title (tasks ! j) \<in> T \<or> (\<exists>i<j. jt_title (tasks ! i) = jt_title (tasks ! j))"
  shows "duplicateError (idx + j) (tasks ! j) \<in> set (validateTasks_titles pf T idx tasks)"
  using assms
proof (induction tasks arbitrary: T idx j)
  case Nil
  then show ?case by simp
next
  case (Cons task tasks)
  show ?case
  proof (cases j)
    case 0
    then show ?thesis using Cons.prems by (simp add: taskErrors_def)
  next
    case (Suc j')
    have a: "j' < length tasks" using Cons.prems(1) Suc by simp
    have b: "jt_title (tasks ! j') \<in> insert (jt_title task) T \<or>
             (\<exists>i<j'. jt_title (tasks ! i) = jt_title (tasks ! j'))"
    proof -
      from Cons.prems(2) consider (inT) "jt_title ((task # tasks) ! j) \<in> T"
        | (earlier) i where "i < j" "jt_title ((task # tasks) ! i) = jt_title ((task # tasks) ! j)"
        by blast
      then show ?thesis
      proof cases
        case inT
        then show ?thesis using Suc by simp
      next
        case earlier
        then show ?thesis using Suc by (cases i) auto
      qed
    qed
    have "duplicateError (Suc idx + j') (tasks ! j')
            \<in> set (validateTasks_titles pf (insert (jt_title task) T) (Suc idx) tasks)"
      by (rule Cons.IH [OF a b])
    then show ?thesis using Suc by simp
  qed
qed

lemma past_due_reported:
  assumes "j < length tasks" and "jt_dueDate (tasks ! j) = Some d" and "d \<noteq> []"
    and "parseDate pf d = Some t" and "t < nowMs pf"
  shows "pastDueError (idx + j) d \<in> set (validateTasks_titles pf T idx tasks)"
  using assms
proof (induction tasks arbitrary: T idx j)
  case Nil
  then show ?case by simp
next
  case (Cons task tasks)
  show ?case
  proof (cases j)
    case 0
    then show ?thesis using Cons.prems by (simp add: taskErrors_def)
  next
    case (Suc j')
    have "pastDueError (Suc idx + j') d
            \<in> set (validateTasks_titles pf (insert (jt_title task) T) (Suc idx) tasks)"
      using Cons.prems Suc by (intro Cons.IH) simp_all
    then show ?thesis using Suc by simp
  qed
qed

lemma execute_checks_no_request:
  assumes "validateTasks pf tasks \<noteq> []"
  shows "\<not> success (fst (jiraTool_execute_write env pf config projectKey (Some tasks) s)) \<and>
         snd (jiraTool_execute_write env pf config projectKey (Some tasks) s) = s"
  using assms by (simp add: jiraTool_execute_write_def Let_def jira_failure_def)

lemma execute_task_errors:
  assumes "validateTasks pf tasks \<noteq> []" and "validateConfig config = []"
    and "isValidProjectKey projectKey"
  shows "jiraTool_execute_write env pf config projectKey (Some tasks) s =
         (jira_failure (''Task validation errors: '' @ join '', '' (validateTasks pf tasks))
            ''Invalid task data'', s)"
proof -
  have "tasks \<noteq> []" using assms(1) by (auto simp: validateTasks_def)
  then show ?thesis using assms by (simp add: jiraTool_execute_write_def Let_def)
qed

text \<open>
  C10, as stated, fails: with \<open>JIRA_EMAIL\<close> unset, a write action whose two tasks share
  a title is rejected for the configuration; the failure does not name the task.
\<close>

theorem C10_configuration_first_counterexample:
  "duplicateAt [taskA, taskA] 0 1 \<and>
   jiraTool_execute_write sprintOnly pf0 (config0\<lparr>email := []\<rparr>) ''PROJ''
       (Some [taskA, taskA]) io0 =
     (\<lparr>success = False,
       data = Text ''Configuration errors: JIRA_EMAIL environment variable is required'',
       error = Some ''Invalid Jira configuration''\<rparr>, io0)"
  by (simp add: duplicateAt_def jiraTool_execute_write_def validateConfig_def config0_def
      jira_failure_def startsWith_def)

text \<open>
  C10, amended: a Jira write action whose task list has two tasks with the same title,
  or a task whose due date lies in the past, returns a failure without sending any
  request; when the configuration and the project key pass their own checks, which come
  first, that failure is \<open>Task validation errors: ...\<close> and lists an entry naming
  the offending task by its position and title (or due date).
\<close>

theorem C10_invalid_tasks_rejected:
  "(duplicateAt tasks i j \<longrightarrow> duplicateError j (tasks ! j) \<in> set (validateTasks pf tasks)) \<and>
   (pastDueAt pf tasks j d \<longrightarrow> pastDueError j d \<in> set (validateTasks pf tasks)) \<and>
   (duplicateAt tasks i j \<or> pastDueAt pf tasks j d \<longrightarrow>
      \<not> success (fst (jiraTool_execute_write env pf config projectKey (Some tasks) s)) \<and>
      snd (jiraTool_execute_write env pf config projectKey (Some tasks) s) = s \<and>
      (validateConfig config = [] \<and> isValidProjectKey projectKey \<longrightarrow>
         jiraTool_execute_write env pf config projectKey (Some tasks) s =
           (jira_failure (''Task validation errors: '' @ join '', '' (validateTasks pf tasks))
              ''Invalid task data'', s)))"
proof -
  have d: "duplicateError j (tasks ! j) \<in> set (validateTasks pf tasks)" if "duplicateAt tasks i j"
    using that duplicate_reported [of j tasks "{}" 0 pf]
    by (auto simp: duplicateAt_def validateTasks_def)
  have p: "pastDueError j d \<in> set (validateTasks pf tasks)" if "pastDueAt pf tasks j d"
    using that past_due_reported [of j tasks d pf _ 0 "{}"]
    by (auto simp: pastDueAt_def validateTasks_def split: option.splits)
  have ne: "validateTasks pf tasks \<noteq> []" if "duplicateAt tasks i j \<or> pastDueAt pf tasks j d"
    using that d p by auto
  show ?thesis
    using d p ne execute_checks_no_request [of pf tasks env config projectKey s]
      execute_task_errors [of pf tasks config projectKey env s]
    by blast
qed

theorem C10_invalid_tasks_rejected_witness:
  "duplicateAt twoTasks 0 1 \<and> pastDueAt pf0 twoTasks 1 ''2020-01-01'' \<and>
   validateConfig config0 = [] \<and> isValidProjectKey ''PROJ'' \<and>
   duplicateError 1 (twoTasks ! 1) \<in> set (validateTasks pf0 twoTasks) \<and>
   pastDueError 1 ''2020-01-01'' \<in> set (validateTasks pf0 twoTasks) \<and>
   jiraTool_execute_write sprintOnly pf0 config0 ''PROJ'' (Some twoTasks) io0 =
     (jira_failure (''Task validation errors: '' @ join '', '' (validateTasks pf0 twoTasks))
        ''Invalid task data'', io0)"
proof -
  have d: "duplicateAt twoTasks 0 1" by (simp add: duplicateAt_def twoTasks_def)
  have p: "pastDueAt pf0 twoTasks 1 ''2020-01-01''"
    by (simp add: pastDueAt_def twoTasks_def pf0_def)
  have c: "validateConfig config0 = []"
    by (simp add: validateConfig_def config0_def startsWith_def)
  have k: "isValidProjectKey ''PROJ''"
    by (simp add: isValidProjectKey_def isUpper_def)
  show ?thesis
    using C10_invalid_tasks_rejected [of twoTasks 0 1 pf0 "''2020-01-01''" sprintOnly config0
        "''PROJ''" io0] d p c k
    by simp
qed

subsection \<open>Results and warnings of the write runs\<close>


































subsection \<open>Archiving the lists of a board\<close>
































subsection \<open>The capabilities of a Jira project\<close>

lemma getprop_truthy: "truthy v \<Longrightarrow> getprop v k = Inr (propOf v k)"
  by (cases "(v, k)" rule: getprop.cases) (simp_all add: propOf_def)

lemma bindIO_Inr:
  assumes "fst (bindIO m f s) = Inr r"
  obtains a s1 where "m s = (Inr a, s1)" and "bindIO m f s = f a s1"
proof (cases "m s")
  case (Pair x s1)
  show ?thesis
  proof (cases x)
    case (Inl e)
    then show ?thesis using assms Pair by (simp add: bindIO_def)
  next
    case (Inr a)
    then show ?thesis using that [of a s1] Pair by (simp add: bindIO_def)
  qed
qed

lemma probe_failed:
  "fst (jiraRequest penv env (createMetaEndpoint projectKey) ''GET'' None s) = Inl e \<Longrightarrow>
   fst (probeCapabilities penv env projectKey s) = noCapabilities"
  by (cases "jiraRequest penv env (createMetaEndpoint projectKey) ''GET'' None s")
    (simp add: probeCapabilities_def)

lemma createJiraIssues_continues:
  "\<exists>assigneeAccountId s2.
     createJiraIssues penv env pf (Some (enhancedTasks, project, originalInput)) s =
       createJiraIssues_write penv env pf
         (fst (probeCapabilities penv env (targetProjectKey originalInput) s))
         assigneeAccountId enhancedTasks originalInput s2"
  by (auto simp: createJiraIssues_def split: prod.splits option.splits)

lemma assigneeField_keys: "k \<noteq> ''assignee'' \<Longrightarrow> map_of (assigneeField a) k = None"
  by (simp add: assigneeField_def)

lemma storyFields_no_priority:
  "\<not> supportsPriority caps \<Longrightarrow> \<not> supportsStoryPoints caps \<Longrightarrow>
   map_of (storyFields caps projectKey assigneeAccountId epicKey story) ''priority'' = None"
  by (simp add: storyFields_def map_add_def assigneeField_keys split: option.splits)

lemma storyFields_no_storyPoints:
  "\<not> supportsStoryPoints caps \<Longrightarrow>
   list_all (\<lambda>fieldId. map_of (storyFields caps projectKey assigneeAccountId epicKey story) fieldId
                        = None) storyPointFieldIds"
  by (simp add: storyFields_def storyPointFieldIds_def map_add_def assigneeField_keys
      split: option.splits)

lemma createStories_without_subtasks:
  assumes "\<not> supportsSubtasks caps"
    and "fst (createStories penv env caps projectKey assigneeAccountId epicKey stories acc s) = Inr keys"
  shows "length (snd keys) = length (snd acc) + length stories"
  using assms(2)
proof (induction stories arbitrary: acc s)
  case Nil
  then show ?case by simp
next
  case (Cons story rest)
  let ?m = "bindIO (jiraRequest penv env ''/rest/api/3/issue'' ''POST''
                     (Some (obj [(''fields'',
                        Some (obj (storyFields caps projectKey assigneeAccountId epicKey story)))])))
             (\<lambda>storyResponse. liftE (getprop storyResponse ''key''))"
  obtain x s1 where m: "?m s = (x, s1)" by (cases "?m s")
  show ?case
  proof (cases x)
    case (Inl e)
    then show ?thesis using Cons.prems m by simp
  next
    case (Inr storyKey)
    have "createStories penv env caps projectKey assigneeAccountId epicKey (story # rest) acc s
        = createStories penv env caps projectKey assigneeAccountId epicKey rest
            (fst acc @ [storyKey], snd acc @ [storyKey]) s1"
      using m Inr assms(1) by simp
    then have "length (snd keys) = length (snd (fst acc @ [storyKey], snd acc @ [storyKey])) + length rest"
      using Cons.prems Cons.IH by simp
    then show ?thesis by simp
  qed
qed

lemma write_result:
  assumes "fst (createJiraIssues_write penv env pf caps assigneeAccountId enhancedTasks originalInput s)
             = Inr r"
  shows "(\<exists>ws. r_warnings r = ws @ capabilityWarnings caps) \<and>
         (\<not> supportsSubtasks caps \<longrightarrow>
            length (r_createdIssues r) = Suc (length (p_stories enhancedTasks)))"
proof -
  let ?key = "targetProjectKey originalInput"
  let ?f3 = "\<lambda>epicKey keys s.
       case getBoardId penv env ?key s of
         (boardId, s1) \<Rightarrow>
           (case createSprintOfPlan penv env pf enhancedTasks boardId (fst keys) s1 of
              ((sprintUrl, ws), s2) \<Rightarrow>
                ((Inr \<lparr>r_epicUrl = JIRA_BASE_URL penv @ ''/browse/'' @ String_of epicKey,
                      r_sprintUrl = sprintUrl, r_createdIssues = snd keys,
                      r_warnings = ws @ capabilityWarnings caps\<rparr>) :: exn + step_result, s2))"
  let ?f2 = "\<lambda>epicKey. bindIO (createStories penv env caps ?key assigneeAccountId epicKey
               (p_stories enhancedTasks) ([], [epicKey])) (?f3 epicKey)"
  let ?f1 = "\<lambda>epicResponse. bindIO (liftE (getprop epicResponse ''key'')) ?f2"
  let ?m1 = "jiraRequest penv env ''/rest/api/3/issue'' ''POST''
               (Some (epicPayload ?key assigneeAccountId enhancedTasks))"
  have w: "createJiraIssues_write penv env pf caps assigneeAccountId enhancedTasks originalInput s
      = bindIO ?m1 ?f1 s"
    by (simp add: createJiraIssues_write_def)
  from assms w have a1: "fst (bindIO ?m1 ?f1 s) = Inr r" by simp
  from a1 obtain epicResponse s1 where e1: "bindIO ?m1 ?f1 s = ?f1 epicResponse s1"
    by (rule bindIO_Inr)
  then have a2: "fst (bindIO (liftE (getprop epicResponse ''key'')) ?f2 s1) = Inr r"
    using a1 by simp
  from a2 obtain epicKey s2 where e2:
    "bindIO (liftE (getprop epicResponse ''key'')) ?f2 s1 = ?f2 epicKey s2"
    by (rule bindIO_Inr)
  then have a3: "fst (?f2 epicKey s2) = Inr r" using a2 by simp
  from a3 obtain keys s3 where
    k: "createStories penv env caps ?key assigneeAccountId epicKey (p_stories enhancedTasks)
          ([], [epicKey]) s2 = (Inr keys, s3)"
    and e3: "?f2 epicKey s2 = ?f3 epicKey keys s3"
    by (rule bindIO_Inr)
  have a4: "fst (?f3 epicKey keys s3) = Inr r" using a3 e3 by simp
  obtain boardId s4 where b: "getBoardId penv env ?key s3 = (boardId, s4)"
    by (cases "getBoardId penv env ?key s3")
  obtain sprintUrl ws s5 where
    sp: "createSprintOfPlan penv env pf enhancedTasks boardId (fst keys) s4 = ((sprintUrl, ws), s5)"
    by (metis prod.exhaust)
  have r: "r = \<lparr>r_epicUrl = JIRA_BASE_URL penv @ ''/browse/'' @ String_of epicKey,
                r_sprintUrl = sprintUrl, r_createdIssues = snd keys,
                r_warnings = ws @ capabilityWarnings caps\<rparr>"
    using a4 b sp by simp
  have "\<not> supportsSubtasks caps \<longrightarrow> length (snd keys) = Suc (length (p_stories enhancedTasks))"
    using createStories_without_subtasks [of caps penv env ?key assigneeAccountId epicKey
        "p_stories enhancedTasks" "([], [epicKey])" s2 keys] k by simp
  then show ?thesis using r by simp
qed

lemma validate_project_request:
  assumes "jiraRequest penv env (''/rest/api/3/project/'' @ projectKey) ''GET'' None s
             = (Inr project, s1)"
    and "getprop project ''style'' = Inr (Some (JStr ''next-gen''))"
  shows "validateTeamManagedProject penv env projectKey s = checkEpicType penv env projectKey project s1"
proof -
  have "truthy project" using assms(2) by (cases "(project, ''style'')" rule: getprop.cases) auto
  then have "getprop project ''projectTypeKey'' = Inr (propOf project ''projectTypeKey'')"
    and "getprop project ''simplified'' = Inr (propOf project ''simplified'')"
    by (simp_all add: getprop_truthy)
  then show ?thesis
    using assms
    by (simp add: validateTeamManagedProject_def bindIO_def liftE_def eqStr_def split: prod.splits)
qed

lemma checkEpicType_failed:
  "fst (jiraRequest penv env (createMetaEndpoint projectKey) ''GET'' None s) = Inl e \<Longrightarrow>
   fst (checkEpicType penv env projectKey project s)
     = \<lparr>v_isValid = True, v_project = project, v_errorMessage = None\<rparr>"
  by (cases "jiraRequest penv env (createMetaEndpoint projectKey) ''GET'' None s")
    (simp add: checkEpicType_def bindIO_def)

lemma checkEpicType_absent:
  "fst (jiraRequest penv env (createMetaEndpoint projectKey) ''GET'' None s) = Inr createMeta \<Longrightarrow>
   hasEpicType createMeta = Inr False \<Longrightarrow>
   fst (checkEpicType penv env projectKey project s)
     = \<lparr>v_isValid = False, v_project = None, v_errorMessage = Some (NoEpicType projectKey)\<rparr>"
  by (cases "jiraRequest penv env (createMetaEndpoint projectKey) ''GET'' None s")
    (simp add: checkEpicType_def bindIO_def liftE_def)

lemma validateProject_result:
  "fst (validateProject penv env (Some input) s) =
     (let validation = fst (validateTeamManagedProject penv env (targetProjectKey input) s)
      in if \<not> v_isValid validation then Inl (ProjectInvalid (v_errorMessage validation))
         else Inr (v_project validation, input))"
  by (simp add: validateProject_def split: prod.splits)

text \<open>
  C8, as stated, fails: the project is team-managed and its metadata, which the
  request returns, lists no Epic issue type; the step validateProject throws, and the
  run of the workflow ends after two read requests, before anything is written.
\<close>

theorem C8_capability_absence_counterexample:
  "fst (validateProject penv0 epicMissing (Some input0) io0)
     = Inl (ProjectInvalid (Some (NoEpicType ''PROJ''))) \<and>
   sent (snd (validateProject penv0 epicMissing (Some input0) io0)) =
     [(''GET'', ''https://j.example/rest/api/3/project/PROJ''),
      (''GET'', ''https://j.example/rest/api/3/issue/createmeta?projectKeys=PROJ&expand=projects.issuetypes.fields'')] \<and>
   epicMissing 1 = resp 200 [] (Some metaWithoutEpic) \<and>
   hasEpicType (Some metaWithoutEpic) = Inr False"
  by code_simp

text \<open>
  C8, amended. In the Jira workflow a failed metadata request never ends the run: in
  the step createJiraIssues it leaves every capability false, and the step goes on
  with the capabilities the probe returned, whatever they are; in the validation of a
  team-managed project it leaves the project valid. Without support for priority and
  story points a story is sent without these fields; without support for subtasks a
  step that returns has created the epic and one issue per story; a step that returns
  reports every missing capability in its warnings. The absence of the Epic issue
  type, once the metadata has been read, is different: the validation fails and the
  run ends.
\<close>

theorem C8_capability_probe:
  "(fst (jiraRequest penv env (createMetaEndpoint (targetProjectKey originalInput)) ''GET'' None s)
      = Inl e \<longrightarrow>
    fst (probeCapabilities penv env (targetProjectKey originalInput) s) = noCapabilities) \<and>
   (\<exists>assigneeAccountId s2.
      createJiraIssues penv env pf (Some (enhancedTasks, project, originalInput)) s =
        createJiraIssues_write penv env pf
          (fst (probeCapabilities penv env (targetProjectKey originalInput) s))
          assigneeAccountId enhancedTasks originalInput s2) \<and>
   (\<not> supportsPriority caps \<and> \<not> supportsStoryPoints caps \<longrightarrow>
      map_of (storyFields caps projectKey assignee epicKey story) ''priority'' = None \<and>
      list_all (\<lambda>fieldId. map_of (storyFields caps projectKey assignee epicKey story) fieldId = None)
        storyPointFieldIds) \<and>
   (fst (createJiraIssues_write penv env pf caps assignee enhancedTasks originalInput t) = Inr r \<longrightarrow>
      (\<not> supportsPriority caps \<longrightarrow>
         ''Priority field is not configured in your project'' \<in> set (r_warnings r)) \<and>
      (\<not> supportsSubtasks caps \<longrightarrow>
         ''Sub-task issue type is not available in your project'' \<in> set (r_warnings r) \<and>
         length (r_createdIssues r) = Suc (length (p_stories enhancedTasks))) \<and>
      (\<not> supportsStoryPoints caps \<longrightarrow>
         ''Story points field is not configured in your project'' \<in> set (r_warnings r))) \<and>
   (jiraRequest penv venv (''/rest/api/3/project/'' @ targetProjectKey originalInput) ''GET'' None u
      = (Inr project, v) \<and>
    getprop project ''style'' = Inr (Some (JStr ''next-gen'')) \<longrightarrow>
      (fst (jiraRequest penv venv (createMetaEndpoint (targetProjectKey originalInput)) ''GET'' None v)
         = Inl e' \<longrightarrow>
       fst (validateProject penv venv (Some originalInput) u) = Inr (project, originalInput)) \<and>
      (fst (jiraRequest penv venv (createMetaEndpoint (targetProjectKey originalInput)) ''GET'' None v)
         = Inr createMeta \<and> hasEpicType createMeta = Inr False \<longrightarrow>
       fst (validateProject penv venv (Some originalInput) u)
         = Inl (ProjectInvalid (Some (NoEpicType (targetProjectKey originalInput))))))"
proof (intro conjI impI)
  assume "fst (jiraRequest penv env (createMetaEndpoint (targetProjectKey originalInput)) ''GET'' None s)
      = Inl e"
  then show "fst (probeCapabilities penv env (targetProjectKey originalInput) s) = noCapabilities"
    by (rule probe_failed)
next
  show "\<exists>assigneeAccountId s2.
      createJiraIssues penv env pf (Some (enhancedTasks, project, originalInput)) s =
        createJiraIssues_write penv env pf
          (fst (probeCapabilities penv env (targetProjectKey originalInput) s))
          assigneeAccountId enhancedTasks originalInput s2"
    by (rule createJiraIssues_continues)
next
  assume "\<not> supportsPriority caps \<and> \<not> supportsStoryPoints caps"
  then show "map_of (storyFields caps projectKey assignee epicKey story) ''priority'' = None"
    by (simp add: storyFields_no_priority)
next
  assume "\<not> supportsPriority caps \<and> \<not> supportsStoryPoints caps"
  then show "list_all (\<lambda>fieldId. map_of (storyFields caps projectKey assignee epicKey story) fieldId = None)
        storyPointFieldIds"
    by (simp add: storyFields_no_storyPoints)
next
  assume a: "fst (createJiraIssues_write penv env pf caps assignee enhancedTasks originalInput t) = Inr r"
    and "\<not> supportsPriority caps"
  then show "''Priority field is not configured in your project'' \<in> set (r_warnings r)"
    using write_result [OF a] by (auto simp: capabilityWarnings_def)
next
  assume a: "fst (createJiraIssues_write penv env pf caps assignee enhancedTasks originalInput t) = Inr r"
    and "\<not> supportsSubtasks caps"
  then show "''Sub-task issue type is not available in your project'' \<in> set (r_warnings r)"
    using write_result [OF a] by (auto simp: capabilityWarnings_def)
next
  assume a: "fst (createJiraIssues_write penv env pf caps assignee enhancedTasks originalInput t) = Inr r"
    and "\<not> supportsSubtasks caps"
  then show "length (r_createdIssues r) = Suc (length (p_stories enhancedTasks))"
    using write_result [OF a] by simp
next
  assume a: "fst (createJiraIssues_write penv env pf caps assignee enhancedTasks originalInput t) = Inr r"
    and "\<not> supportsStoryPoints caps"
  then show "''Story points field is not configured in your project'' \<in> set (r_warnings r)"
    using write_result [OF a] by (auto simp: capabilityWarnings_def)
next
  assume p: "jiraRequest penv venv (''/rest/api/3/project/'' @ targetProjectKey originalInput) ''GET'' None u
      = (Inr project, v) \<and> getprop project ''style'' = Inr (Some (JStr ''next-gen''))"
    and m: "fst (jiraRequest penv venv (createMetaEndpoint (targetProjectKey originalInput)) ''GET'' None v)
         = Inl e'"
  have "validateTeamManagedProject penv venv (targetProjectKey originalInput) u
      = checkEpicType penv venv (targetProjectKey originalInput) project v"
    using p by (simp add: validate_project_request)
  then show "fst (validateProject penv venv (Some originalInput) u) = Inr (project, originalInput)"
    using checkEpicType_failed [OF m, of project] by (simp add: validateProject_result)
next
  assume p: "jiraRequest penv venv (''/rest/api/3/project/'' @ targetProjectKey originalInput) ''GET'' None u
      = (Inr project, v) \<and> getprop project ''style'' = Inr (Some (JStr ''next-gen''))"
    and m: "fst (jiraRequest penv venv (createMetaEndpoint (targetProjectKey originalInput)) ''GET'' None v)
         = Inr createMeta \<and> hasEpicType createMeta = Inr False"
  have "validateTeamManagedProject penv venv (targetProjectKey originalInput) u
      = checkEpicType penv venv (targetProjectKey originalInput) project v"
    using p by (simp add: validate_project_request)
  then show "fst (validateProject penv venv (Some originalInput) u)
         = Inl (ProjectInvalid (Some (NoEpicType (targetProjectKey originalInput))))"
    using checkEpicType_absent [of penv venv "targetProjectKey originalInput" v createMeta project] m
    by (simp add: validateProject_result)
qed

theorem C8_capability_probe_witness:
  "fst (probeCapabilities penv0 probeRejected ''PROJ'' io0) = noCapabilities \<and>
   fst (createJiraIssues_write penv0 probeRejected pf0 noCapabilities (Some JNull) plan0 input0
          (snd (probeCapabilities penv0 probeRejected ''PROJ'' io0)))
     = Inr resultOfProbeRejected \<and>
   map_of (storyFields noCapabilities ''PROJ'' (Some JNull) (Some (JStr ''PROJ-1'')) story0)
     ''priority'' = None \<and>
   ''Sub-task issue type is not available in your project''
     \<in> set (r_warnings resultOfProbeRejected) \<and>
   length (r_createdIssues resultOfProbeRejected) = Suc (length (p_stories plan0)) \<and>
   fst (validateProject penv0 metaUnavailable (Some input0) io0)
     = Inr (Some nextGenProject, input0)"
proof -
  let ?t0 = "snd (probeCapabilities penv0 probeRejected ''PROJ'' io0)"
  let ?v1 = "snd (jiraRequest penv0 metaUnavailable (''/rest/api/3/project/'' @ ''PROJ'') ''GET''
                    None io0)"
  have k: "targetProjectKey input0 = ''PROJ''"
    by (simp add: input0_def)
  have h1: "fst (jiraRequest penv0 probeRejected (createMetaEndpoint ''PROJ'') ''GET'' None io0)
      = Inl (Error ''Jira API error: 500  - server error'')"
    by code_simp
  have h3: "\<not> supportsPriority noCapabilities \<and> \<not> supportsStoryPoints noCapabilities \<and>
      \<not> supportsSubtasks noCapabilities"
    by (simp add: noCapabilities_def)
  have h4: "fst (createJiraIssues_write penv0 probeRejected pf0 noCapabilities (Some JNull) plan0
                   input0 ?t0) = Inr resultOfProbeRejected"
    by code_simp
  have "fst (jiraRequest penv0 metaUnavailable (''/rest/api/3/project/'' @ ''PROJ'') ''GET'' None io0)
      = Inr (Some nextGenProject)"
    by code_simp
  then have h5: "jiraRequest penv0 metaUnavailable (''/rest/api/3/project/'' @ ''PROJ'') ''GET'' None
      io0 = (Inr (Some nextGenProject), ?v1)"
    by (simp add: prod_eq_iff)
  have h6: "getprop (Some nextGenProject) ''style'' = Inr (Some (JStr ''next-gen''))"
    by code_simp
  have h7: "fst (jiraRequest penv0 metaUnavailable (createMetaEndpoint ''PROJ'') ''GET'' None ?v1)
      = Inl (Error ''Jira API error: 500  - server error'')"
    by code_simp
  show ?thesis
    using C8_capability_probe [where penv = penv0 and env = probeRejected and pf = pf0
        and originalInput = input0 and enhancedTasks = plan0 and s = io0
        and e = "Error ''Jira API error: 500  - server error''"
        and e' = "Error ''Jira API error: 500  - server error''"
        and caps = noCapabilities and projectKey = "''PROJ''" and assignee = "Some JNull"
        and epicKey = "Some (JStr ''PROJ-1'')" and story = story0 and t = ?t0
        and r = resultOfProbeRejected and venv = metaUnavailable and u = io0 and v = ?v1
        and project = "Some nextGenProject"]
      h1 h3 h4 h5 h6 h7
    unfolding k by blast
qed

end
